theory Spec2Isabelle
  imports Main "HOL-Library.Sublist" "HOL-Library.AList" "HOL-Library.Word"
begin

section \<open>Python values\<close>

text \<open>
  The quiz solver of \<^verbatim>\<open>src/solver.py\<close> works on Python values that come out of
  \<^verbatim>\<open>json.loads\<close>, pandas and the language model: \<^verbatim>\<open>None\<close>, booleans, integers,
  floats, strings, lists and dictionaries. A dictionary is an association list in
  insertion order.

  A Python \<^verbatim>\<open>str\<close> is a sequence of Unicode code points, here a list of natural
  numbers; \<open>lit\<close> turns a literal of the theory into such a string.

  A Python \<^verbatim>\<open>float\<close> is an IEEE 754 double: \<open>Finite neg m e\<close> is the number
  \<open>m * 2 ^ e\<close>, negative when \<open>neg\<close> holds, \<open>Infinite neg\<close> is an infinity and
  \<open>NotANumber\<close> a NaN.
\<close>

type_synonym pystr = "nat list"

definition lit :: "string \<Rightarrow> pystr" where
  "lit s = map of_char s"

datatype pyfloat = Finite bool nat int | Infinite bool | NotANumber

datatype pyval =
    PNone
  | PBool bool
  | PInt int
  | PFloat pyfloat
  | PStr pystr
  | PList "pyval list"
  | PDict "(pystr \<times> pyval) list"

text \<open>\<^verbatim>\<open>bool(x)\<close> of a float: every float but zero is true.\<close>

definition float_truthy :: "pyfloat \<Rightarrow> bool" where
  "float_truthy f = (case f of Finite neg m e \<Rightarrow> m \<noteq> 0 | _ \<Rightarrow> True)"

text \<open>Truthiness, \<^verbatim>\<open>bool(v)\<close>, as \<^verbatim>\<open>if v\<close>, \<^verbatim>\<open>not v\<close> and \<^verbatim>\<open>while v\<close> use it.\<close>

definition truthy :: "pyval \<Rightarrow> bool" where
  "truthy v =
     (case v of
        PNone \<Rightarrow> False
      | PBool b \<Rightarrow> b
      | PInt i \<Rightarrow> i \<noteq> 0
      | PFloat f \<Rightarrow> float_truthy f
      | PStr s \<Rightarrow> s \<noteq> []
      | PList l \<Rightarrow> l \<noteq> []
      | PDict d \<Rightarrow> d \<noteq> [])"

text \<open>\<^verbatim>\<open>k in d\<close> and \<^verbatim>\<open>d[k]\<close> / \<^verbatim>\<open>d.get(k)\<close> on a dictionary.\<close>

definition has_key :: "(pystr \<times> 'v) list \<Rightarrow> pystr \<Rightarrow> bool" where
  "has_key d k = (map_of d k \<noteq> None)"

definition dict_get :: "(pystr \<times> pyval) list \<Rightarrow> pystr \<Rightarrow> pyval" where
  "dict_get d k = (case map_of d k of None \<Rightarrow> PNone | Some v \<Rightarrow> v)"

text \<open>\<^verbatim>\<open>s.startswith(p)\<close>, \<^verbatim>\<open>s.endswith(p)\<close> and \<^verbatim>\<open>p in s\<close>.\<close>

definition startswith :: "pystr \<Rightarrow> pystr \<Rightarrow> bool" where
  "startswith s p = prefix p s"

definition endswith :: "pystr \<Rightarrow> pystr \<Rightarrow> bool" where
  "endswith s p = suffix p s"

fun contains :: "pystr \<Rightarrow> pystr \<Rightarrow> bool" where
  "contains [] p = (p = [])"
| "contains (c # s) p = (prefix p (c # s) \<or> contains s p)"

section \<open>Errors, HTTP responses and tables\<close>

text \<open>
  Every exception the solver can meet is a value. \<open>ConfigError\<close> is the
  \<^verbatim>\<open>Exception("AIPIPE_TOKEN or AIPIPE_URL not set")\<close> of \<^verbatim>\<open>_call_aipipe\<close>,
  \<open>UnsupportedFileType\<close> the \<^verbatim>\<open>Exception("Unsupported file type for heuristic")\<close> of
  \<^verbatim>\<open>_download_and_process_file\<close>, \<open>HTTPStatusError\<close> what \<^verbatim>\<open>raise_for_status\<close> raises,
  \<open>TransportError\<close> any failure of the network (no connection, timeout), and the others
  are Python's built-in exceptions of these names.
\<close>

datatype exn =
    ConfigError
  | TransportError
  | HTTPStatusError int
  | UnsupportedFileType
  | DecodeError
  | ValueError
  | TypeError
  | OverflowError
  | KeyError
  | IndexError
  | AttributeError

record http_response =
  status_code :: int
  body :: pystr

text \<open>\<^verbatim>\<open>resp.raise_for_status()\<close> of httpx: any status outside 200 to 299 raises.\<close>

definition raise_for_status :: "http_response \<Rightarrow> exn + http_response" where
  "raise_for_status resp =
     (if 200 \<le> status_code resp \<and> status_code resp < 300 then Inr resp
      else Inl (HTTPStatusError (status_code resp)))"

text \<open>
  A pandas \<^verbatim>\<open>DataFrame\<close> as the solver uses it: the number of rows, and the columns in
  column order, each with its label and its cells from the first row to the last. The
  cells of a column have one dtype: \<^verbatim>\<open>int64\<close> and \<^verbatim>\<open>uint64\<close> cells are 64-bit machine
  integers, \<^verbatim>\<open>float64\<close> cells are doubles, and the cells of any other dtype (\<^verbatim>\<open>object\<close>,
  \<^verbatim>\<open>bool\<close>, dates) are Python values. \<^verbatim>\<open>select_dtypes("number")\<close> selects the first three.
\<close>

datatype cells =
    Int64 "64 word list"
  | UInt64 "64 word list"
  | Float64 "pyfloat list"
  | Other "pyval list"

record column =
  col_name :: pystr
  col_cells :: cells

record frame =
  nrows :: nat
  columns :: "column list"

definition col_numeric :: "column \<Rightarrow> bool" where
  "col_numeric c = (case col_cells c of Other vs \<Rightarrow> False | _ \<Rightarrow> True)"

text \<open>The cell of a row as the Python value that \<^verbatim>\<open>to_dict\<close> gives.\<close>

definition cell_at :: "cells \<Rightarrow> nat \<Rightarrow> pyval" where
  "cell_at cs i =
     (case cs of
        Int64 ws \<Rightarrow> PInt (sint (ws ! i))
      | UInt64 ws \<Rightarrow> PInt (uint (ws ! i))
      | Float64 fs \<Rightarrow> PFloat (fs ! i)
      | Other vs \<Rightarrow> vs ! i)"

text \<open>\<^verbatim>\<open>df.to_dict("records")\<close>: one dictionary per row, from column label to cell.\<close>

definition to_dict_records :: "frame \<Rightarrow> pyval list" where
  "to_dict_records df =
     map (\<lambda>i. PDict (map (\<lambda>c. (col_name c, cell_at (col_cells c) i)) (columns df)))
       [0 ..< nrows df]"

section \<open>Library functions\<close>

text \<open>
  The functions of Python's standard library and of the packages the solver imports are
  not part of the repository. Those the model does not write out are its parameters,
  collected in one record:
  \<^item> \<open>json_loads\<close>: \<^verbatim>\<open>json.loads\<close> (and \<^verbatim>\<open>resp.json()\<close> on a response body),
    \<open>None\<close> when it raises;
  \<^item> \<open>json_dumps\<close>: \<^verbatim>\<open>json.dumps\<close>, \<open>None\<close> when it raises;
  \<^item> \<open>py_str\<close>: \<^verbatim>\<open>str(v)\<close>;
  \<^item> \<open>int_max_str_digits\<close>: \<^verbatim>\<open>sys.get_int_max_str_digits()\<close>, the longest digit string
    \<^verbatim>\<open>int\<close> converts, 4300 by default since CPython 3.11, and 0 where there is no limit;
  \<^item> \<open>soup_text\<close>: the visible text \<^verbatim>\<open>BeautifulSoup(html, "html.parser").get_text("\n")\<close>;
  \<^item> \<open>soup_hrefs\<close>: the \<^verbatim>\<open>href\<close> values of \<^verbatim>\<open>find_all("a", href=True)\<close>, in document order;
  \<^item> \<open>urljoin\<close>: \<^verbatim>\<open>urllib.parse.urljoin\<close>;
  \<^item> \<open>read_csv\<close>: \<^verbatim>\<open>pd.read_csv(io.StringIO(content.decode()))\<close>, and \<open>read_excel\<close>:
    \<^verbatim>\<open>pd.read_excel(io.BytesIO(content))\<close>, an error when decoding or parsing raises;
  \<^item> \<open>float_sum_int\<close>: \<^verbatim>\<open>int(series.sum())\<close> of a \<^verbatim>\<open>float64\<close> column, an error when
    \<^verbatim>\<open>int\<close> raises (the sum can be infinite or not a number);
  \<^item> the Unicode tables for the code points from 256 on: \<open>uni_isspace\<close> is
    \<^verbatim>\<open>str.isspace\<close>, \<open>uni_isalnum\<close> is \<^verbatim>\<open>str.isalnum\<close>, \<open>uni_decimal\<close> the value of a
    decimal digit, \<open>uni_tolower\<close> the lower-case code point that \<^verbatim>\<open>re\<close> compares under
    \<^verbatim>\<open>re.IGNORECASE\<close>, and \<open>uni_lower\<close> is \<^verbatim>\<open>str.lower\<close> on a string that holds such a
    code point.
\<close>

record pylib =
  json_loads :: "pystr \<Rightarrow> pyval option"
  json_dumps :: "pyval \<Rightarrow> pystr option"
  py_str :: "pyval \<Rightarrow> pystr"
  int_max_str_digits :: nat
  soup_text :: "pystr \<Rightarrow> pystr"
  soup_hrefs :: "pystr \<Rightarrow> pystr list"
  urljoin :: "pystr \<Rightarrow> pystr \<Rightarrow> pystr"
  read_csv :: "pystr \<Rightarrow> exn + frame"
  read_excel :: "pystr \<Rightarrow> exn + frame"
  float_sum_int :: "pyfloat list \<Rightarrow> exn + int"
  uni_isspace :: "nat \<Rightarrow> bool"
  uni_isalnum :: "nat \<Rightarrow> bool"
  uni_decimal :: "nat \<Rightarrow> nat option"
  uni_tolower :: "nat \<Rightarrow> nat"
  uni_lower :: "pystr \<Rightarrow> pystr"

section \<open>Characters and strings\<close>

text \<open>
  The character classes are written out for the code points below 256 and taken from
  the Unicode tables of the library from 256 on.

  \<^verbatim>\<open>str.isspace\<close>, which is also the class \<^verbatim>\<open>\s\<close> of \<^verbatim>\<open>re\<close> on a \<^verbatim>\<open>str\<close> pattern:
  below 256 these are tab to carriage return, the separators 0x1C to 0x1F, space, NEL
  and the no-break space.
\<close>

definition latin_space :: "nat \<Rightarrow> bool" where
  "latin_space c = ((9 \<le> c \<and> c \<le> 13) \<or> (28 \<le> c \<and> c \<le> 32) \<or> c = 133 \<or> c = 160)"

definition is_space :: "pylib \<Rightarrow> nat \<Rightarrow> bool" where
  "is_space lib c = (if c < 256 then latin_space c else uni_isspace lib c)"

text \<open>\<^verbatim>\<open>\d\<close>: the decimal digits (category Nd), which are the characters \<^verbatim>\<open>int\<close> reads as
  digits; below 256 these are 0 to 9 only.\<close>

definition digit_value :: "pylib \<Rightarrow> nat \<Rightarrow> nat option" where
  "digit_value lib c =
     (if 48 \<le> c \<and> c \<le> 57 then Some (c - 48)
      else if c < 256 then None
      else uni_decimal lib c)"

definition is_digit :: "pylib \<Rightarrow> nat \<Rightarrow> bool" where
  "is_digit lib c = (digit_value lib c \<noteq> None)"

definition is_ascii_alpha :: "nat \<Rightarrow> bool" where
  "is_ascii_alpha c = ((65 \<le> c \<and> c \<le> 90) \<or> (97 \<le> c \<and> c \<le> 122))"

definition is_ascii_digit :: "nat \<Rightarrow> bool" where
  "is_ascii_digit c = (48 \<le> c \<and> c \<le> 57)"

text \<open>\<^verbatim>\<open>\w\<close> on a \<^verbatim>\<open>str\<close> pattern is \<^verbatim>\<open>c.isalnum() or c == '_'\<close>. Below 256 the
  alphanumeric code points are the ASCII letters and digits, the ordinal indicators
  0xAA and 0xBA, the micro sign 0xB5, the superscripts 0xB2, 0xB3, 0xB9, the fractions
  0xBC to 0xBE, and the letters 0xC0 to 0xFF without the signs 0xD7 and 0xF7.\<close>

definition latin_word :: "nat \<Rightarrow> bool" where
  "latin_word c =
     (is_ascii_alpha c \<or> is_ascii_digit c \<or> c = 95 \<or>
      c = 170 \<or> c = 178 \<or> c = 179 \<or> c = 181 \<or> c = 185 \<or> c = 186 \<or>
      (188 \<le> c \<and> c \<le> 190) \<or> (192 \<le> c \<and> c \<noteq> 215 \<and> c \<noteq> 247))"

definition is_word :: "pylib \<Rightarrow> nat \<Rightarrow> bool" where
  "is_word lib c = (if c < 256 then latin_word c else uni_isalnum lib c)"

text \<open>Lower case: below 256 the ASCII capitals and the capitals 0xC0 to 0xDE (without
  the multiplication sign 0xD7) move up by 32. A string of such code points is lowered
  one by one.\<close>

definition latin_lower :: "nat \<Rightarrow> nat" where
  "latin_lower c =
     (if (65 \<le> c \<and> c \<le> 90) \<or> (192 \<le> c \<and> c \<le> 222 \<and> c \<noteq> 215) then c + 32 else c)"

definition tolower :: "pylib \<Rightarrow> nat \<Rightarrow> nat" where
  "tolower lib c = (if c < 256 then latin_lower c else uni_tolower lib c)"

definition lower :: "pylib \<Rightarrow> pystr \<Rightarrow> pystr" where
  "lower lib s = (if list_all (\<lambda>c. c < 256) s then map latin_lower s else uni_lower lib s)"

text \<open>\<^verbatim>\<open>str.strip()\<close>: whitespace is dropped at both ends.\<close>

definition strip :: "pylib \<Rightarrow> pystr \<Rightarrow> pystr" where
  "strip lib s = rev (dropWhile (is_space lib) (rev (dropWhile (is_space lib) s)))"

section \<open>Reading numbers\<close>

text \<open>\<^verbatim>\<open>re.fullmatch(r"-?\d+", s)\<close> and \<^verbatim>\<open>re.fullmatch(r"-?\d+\.\d+", s)\<close>; the minus
  sign is the code point 45 and the point 46.\<close>

definition unsigned_part :: "pystr \<Rightarrow> pystr" where
  "unsigned_part s = (case s of c # r \<Rightarrow> if c = 45 then r else s | [] \<Rightarrow> [])"

definition is_int_literal :: "pylib \<Rightarrow> pystr \<Rightarrow> bool" where
  "is_int_literal lib s = (let ds = unsigned_part s in ds \<noteq> [] \<and> list_all (is_digit lib) ds)"

definition is_decimal_literal :: "pylib \<Rightarrow> pystr \<Rightarrow> bool" where
  "is_decimal_literal lib s =
     (let ds = unsigned_part s;
          a = takeWhile (is_digit lib) ds;
          r = dropWhile (is_digit lib) ds
      in a \<noteq> [] \<and> (case r of [] \<Rightarrow> False
                       | c # b \<Rightarrow> c = 46 \<and> b \<noteq> [] \<and> list_all (is_digit lib) b))"

text \<open>The number that a string of decimal digits writes.\<close>

definition digits_value :: "pylib \<Rightarrow> pystr \<Rightarrow> nat" where
  "digits_value lib ds =
     foldl (\<lambda>acc c. 10 * acc + (case digit_value lib c of Some d \<Rightarrow> d | None \<Rightarrow> 0)) 0 ds"

text \<open>
  \<^verbatim>\<open>int(s)\<close> on a string that matches \<^verbatim>\<open>-?\d+\<close>. CPython raises \<^verbatim>\<open>ValueError\<close> when the
  string has more digits than the limit \<^verbatim>\<open>sys.get_int_max_str_digits()\<close>, unless the
  limit is 0.
\<close>

definition py_int :: "pylib \<Rightarrow> pystr \<Rightarrow> exn + int" where
  "py_int lib s =
     (let ds = unsigned_part s in
      if 0 < int_max_str_digits lib \<and> int_max_str_digits lib < length ds then Inl ValueError
      else Inr (if ds = s then int (digits_value lib ds) else - int (digits_value lib ds)))"

text \<open>
  \<^verbatim>\<open>float(s)\<close> on a string that matches \<^verbatim>\<open>-?\d+\.\d+\<close> is correctly rounded: it is the
  double nearest to the decimal number, the one with the even mantissa when two are
  equally near, and an infinity from \<open>2 ^ 1024 - 2 ^ 970\<close> on. \<open>round_double neg n k\<close> is
  that double for the number \<open>n / 10 ^ k\<close>: a mantissa of 53 bits with an exponent of at
  least \<open>-1074\<close>. \<open>bitlen\<close> is the number of binary digits of a number.
\<close>

fun bitlen :: "nat \<Rightarrow> nat" where
  "bitlen n = (if n = 0 then 0 else Suc (bitlen (n div 2)))"

definition round_double :: "bool \<Rightarrow> nat \<Rightarrow> nat \<Rightarrow> pyfloat" where
  "round_double neg n k =
     (if n = 0 then Finite neg 0 (- 1074)
      else
        (let d = 10 ^ k;
             e0 = int (bitlen n) - int (bitlen d);
             e2 = (if (if 0 \<le> e0 then d * 2 ^ nat e0 \<le> n else d \<le> n * 2 ^ nat (- e0))
                   then e0 else e0 - 1);
             p = max e2 (- 1022) - 52;
             num = (if p \<le> 0 then n * 2 ^ nat (- p) else n);
             den = (if p \<le> 0 then d else d * 2 ^ nat p);
             m0 = num div den;
             r = num mod den;
             m1 = (if den < 2 * r \<or> (2 * r = den \<and> odd m0) then Suc m0 else m0);
             m = (if m1 = 2 ^ 53 then 2 ^ 52 else m1);
             q = (if m1 = 2 ^ 53 then p + 1 else p)
         in if 1023 < q + 52 then Infinite neg else Finite neg m q))"

definition py_float :: "pylib \<Rightarrow> pystr \<Rightarrow> pyfloat" where
  "py_float lib s =
     (let ds = unsigned_part s;
          a = takeWhile (is_digit lib) ds;
          b = drop 1 (dropWhile (is_digit lib) ds)
      in round_double (ds \<noteq> s) (digits_value lib (a @ b)) (length b))"

section \<open>Normalization helpers\<close>

text \<open>\<^verbatim>\<open>_attempt_json_parse\<close>: the parsed value, \<^verbatim>\<open>None\<close> when \<^verbatim>\<open>json.loads\<close> raises.\<close>

definition attempt_json_parse :: "pylib \<Rightarrow> pystr \<Rightarrow> pyval" where
  "attempt_json_parse lib v = (case json_loads lib v of None \<Rightarrow> PNone | Some j \<Rightarrow> j)"

text \<open>\<^verbatim>\<open>_attempt_number\<close>: an exception of \<^verbatim>\<open>int\<close> is caught and gives \<^verbatim>\<open>None\<close>.\<close>

definition attempt_number :: "pylib \<Rightarrow> pystr \<Rightarrow> pyval option" where
  "attempt_number lib v =
     (if is_int_literal lib (strip lib v) then
        (case py_int lib (strip lib v) of Inr i \<Rightarrow> Some (PInt i) | Inl e \<Rightarrow> None)
      else if is_decimal_literal lib (strip lib v) then Some (PFloat (py_float lib (strip lib v)))
      else None)"

definition attempt_boolean :: "pylib \<Rightarrow> pystr \<Rightarrow> bool option" where
  "attempt_boolean lib v =
     (let w = lower lib (strip lib v) in
      if w \<in> set [lit ''true'', lit ''yes'', lit ''y''] then Some True
      else if w \<in> set [lit ''false'', lit ''no'', lit ''n''] then Some False
      else None)"

text \<open>\<^verbatim>\<open>isinstance(v, (str, int, float, bool))\<close>.\<close>

fun is_scalar :: "pyval \<Rightarrow> bool" where
  "is_scalar (PStr _) = True"
| "is_scalar (PInt _) = True"
| "is_scalar (PFloat _) = True"
| "is_scalar (PBool _) = True"
| "is_scalar _ = False"

text \<open>The loop of \<^verbatim>\<open>_flatten_answer_object\<close>: \<^verbatim>\<open>cleaned[k] = v\<close> or \<^verbatim>\<open>cleaned[k] = str(v)\<close>
  for every item, in order, first from any dictionary \<open>cleaned\<close> and then from the empty
  one.\<close>

definition clean_value :: "pylib \<Rightarrow> pyval \<Rightarrow> pyval" where
  "clean_value lib v = (if is_scalar v then v else PStr (py_str lib v))"

definition clean_from ::
  "pylib \<Rightarrow> (pystr \<times> pyval) list \<Rightarrow> (pystr \<times> pyval) list \<Rightarrow> (pystr \<times> pyval) list" where
  "clean_from lib obj cleaned =
     fold (\<lambda>(k, v) cleaned. AList.update k (clean_value lib v) cleaned) obj cleaned"

definition clean_items :: "pylib \<Rightarrow> (pystr \<times> pyval) list \<Rightarrow> (pystr \<times> pyval) list" where
  "clean_items lib obj = clean_from lib obj []"

definition flatten_answer_object :: "pylib \<Rightarrow> (pystr \<times> pyval) list \<Rightarrow> pyval" where
  "flatten_answer_object lib obj =
     (if has_key obj (lit ''answer'') then
        (let v = dict_get obj (lit ''answer'') in
         if is_scalar v then v
         else (case json_dumps lib v of Some s \<Rightarrow> PStr s | None \<Rightarrow> PStr (py_str lib v)))
      else PDict (clean_items lib obj))"

definition normalize_answer_for_submission :: "pylib \<Rightarrow> pyval \<Rightarrow> pyval" where
  "normalize_answer_for_submission lib answer =
     (case answer of
        PInt _ \<Rightarrow> answer
      | PFloat _ \<Rightarrow> answer
      | PBool _ \<Rightarrow> answer
      | PDict d \<Rightarrow> flatten_answer_object lib d
      | PStr a \<Rightarrow>
          (let s = strip lib a in
           case attempt_boolean lib s of
             Some b \<Rightarrow> PBool b
           | None \<Rightarrow>
               (case attempt_number lib s of
                  Some n \<Rightarrow> n
                | None \<Rightarrow>
                    (let j = attempt_json_parse lib s in
                     if j \<noteq> PNone then
                       (case j of PDict d \<Rightarrow> flatten_answer_object lib d | _ \<Rightarrow> j)
                     else if startswith s (lit ''data:'') \<and> contains s (lit '';base64,'') then PStr s
                     else PStr s)))
      | _ \<Rightarrow> PStr (py_str lib answer))"

section \<open>Secret extraction\<close>

text \<open>
  \<^verbatim>\<open>_extract_secret_from_text\<close> tries three \<^verbatim>\<open>re.search\<close> calls in turn.
  \<^verbatim>\<open>re.search\<close> tries the pattern at every position of the text from left to right
  and returns the first match: \<open>search_from here pre s\<close> does so for the text \<open>s\<close> that
  follows the text \<open>pre\<close>, where \<open>here pre s\<close> matches the pattern at the head of
  \<open>s\<close> and gives the captured group.
\<close>

fun search_from :: "(pystr \<Rightarrow> pystr \<Rightarrow> pystr option) \<Rightarrow> pystr \<Rightarrow> pystr \<Rightarrow> pystr option" where
  "search_from here pre [] = here pre []"
| "search_from here pre (c # s) =
     (case here pre (c # s) of Some m \<Rightarrow> Some m | None \<Rightarrow> search_from here (pre @ [c]) s)"

text \<open>
  Under \<^verbatim>\<open>re.IGNORECASE\<close> a character matches a lower-case letter of the pattern when its
  lower-case code point is that letter or one of the letter's other lower-case forms:
  the long s (0x17F) for s and the dotless i (0x131) for i. \<open>ci_word p w\<close> says that the
  text \<open>w\<close> matches the lower-case word \<open>p\<close> in this way.
\<close>

definition ci_fixes :: "nat \<Rightarrow> nat list" where
  "ci_fixes x = (if x = 115 then [383] else if x = 105 then [305] else [])"

definition ci_match :: "pylib \<Rightarrow> nat \<Rightarrow> nat \<Rightarrow> bool" where
  "ci_match lib x c = (tolower lib c = x \<or> tolower lib c \<in> set (ci_fixes x))"

definition ci_word :: "pylib \<Rightarrow> pystr \<Rightarrow> pystr \<Rightarrow> bool" where
  "ci_word lib p w = list_all2 (ci_match lib) p w"

text \<open>
  First pattern, \<^verbatim>\<open>(tds\{[^}]+\})\<close> with \<^verbatim>\<open>re.IGNORECASE\<close>: the letters t, d, s in
  any case, an opening brace (123), a non-empty run of characters other than the closing
  brace (125), and the closing brace. The greedy run stops at the first closing brace,
  and giving characters back never helps, since none of them is a closing brace.
\<close>

definition match1_here :: "pylib \<Rightarrow> pystr \<Rightarrow> pystr option" where
  "match1_here lib s =
     (if ci_word lib (lit ''tds'') (take 3 s) \<and> take 1 (drop 3 s) = [123] then
        (let body = takeWhile (\<lambda>c. c \<noteq> 125) (drop 4 s);
             rest = dropWhile (\<lambda>c. c \<noteq> 125) (drop 4 s)
         in if body \<noteq> [] \<and> rest \<noteq> [] then Some (take 4 s @ body @ [125]) else None)
      else None)"

text \<open>
  Second pattern, \<^verbatim>\<open>\b([A-Za-z0-9_\-]{6,})\b\<close>: a word boundary, six or more characters
  of the class, a word boundary. A word boundary lies between a \<^verbatim>\<open>\w\<close> character and a
  character that is not one, the ends of the text counting as not. The greedy run
  takes every character of the class and gives characters back, one at a time and not
  below six, until a boundary follows.
\<close>

definition is_tok2 :: "nat \<Rightarrow> bool" where
  "is_tok2 c = (is_ascii_alpha c \<or> is_ascii_digit c \<or> c = 95 \<or> c = 45)"

definition boundary :: "pylib \<Rightarrow> pystr \<Rightarrow> pystr \<Rightarrow> bool" where
  "boundary lib pre post =
     ((pre \<noteq> [] \<and> is_word lib (last pre)) \<noteq> (post \<noteq> [] \<and> is_word lib (hd post)))"

definition match2_here :: "pylib \<Rightarrow> pystr \<Rightarrow> pystr \<Rightarrow> pystr option" where
  "match2_here lib pre s =
     (if boundary lib pre s then
        (case find (\<lambda>n. boundary lib (pre @ take n s) (drop n s))
                (rev [6 ..< Suc (length (takeWhile is_tok2 s))]) of
           Some n \<Rightarrow> Some (take n s)
         | None \<Rightarrow> None)
      else None)"

text \<open>
  Third pattern, \<^verbatim>\<open>secret[:\s]*([A-Za-z0-9_\-{}]{4,})\<close> with \<^verbatim>\<open>re.IGNORECASE\<close>: the
  word in any case, a run of colons (58) and whitespace, and four or more characters of
  the class, which are the captured group. Under \<^verbatim>\<open>re.IGNORECASE\<close> a character is of
  the class when its lower-case code point is a lower-case ASCII letter, the long s, the
  dotless i, a digit, the underscore, the hyphen or a brace. The run of separators is
  greedy: it gives separators back, one at a time, until four characters of the class
  follow; the group is then every character of the class that follows.
\<close>

definition is_sep3 :: "pylib \<Rightarrow> nat \<Rightarrow> bool" where
  "is_sep3 lib c = (c = 58 \<or> is_space lib c)"

definition is_tok3 :: "pylib \<Rightarrow> nat \<Rightarrow> bool" where
  "is_tok3 lib c =
     (let l = tolower lib c in
      (97 \<le> l \<and> l \<le> 122) \<or> is_ascii_digit l \<or> l = 95 \<or> l = 45 \<or> l = 123 \<or> l = 125
      \<or> l = 383 \<or> l = 305)"

definition match3_here :: "pylib \<Rightarrow> pystr \<Rightarrow> pystr option" where
  "match3_here lib s =
     (if ci_word lib (lit ''secret'') (take 6 s) then
        (let r = drop 6 s in
         case find (\<lambda>j. 4 \<le> length (takeWhile (is_tok3 lib) (drop j r)))
                (rev [0 ..< Suc (length (takeWhile (is_sep3 lib) r))]) of
           Some j \<Rightarrow> Some (takeWhile (is_tok3 lib) (drop j r))
         | None \<Rightarrow> None)
      else None)"

definition search1 :: "pylib \<Rightarrow> pystr \<Rightarrow> pystr option" where
  "search1 lib page = search_from (\<lambda>pre. match1_here lib) [] page"

definition search2 :: "pylib \<Rightarrow> pystr \<Rightarrow> pystr option" where
  "search2 lib page = search_from (match2_here lib) [] page"

definition search3 :: "pylib \<Rightarrow> pystr \<Rightarrow> pystr option" where
  "search3 lib page = search_from (\<lambda>pre. match3_here lib) [] page"

definition extract_secret_from_text :: "pylib \<Rightarrow> pystr \<Rightarrow> pystr option" where
  "extract_secret_from_text lib page =
     (if page = [] then None
      else case search1 lib page of
        Some m \<Rightarrow> Some m
      | None \<Rightarrow>
          (case search2 lib page of
             Some m \<Rightarrow> Some m
           | None \<Rightarrow>
               (case search3 lib page of Some m \<Rightarrow> Some m | None \<Rightarrow> None)))"

text \<open>
  What the three patterns match, stated without a search. A match of the first pattern
  is a token: the three letters, and a non-empty text without a closing brace between
  braces. A match of the second pattern is a text of six or more characters of its class
  with a word boundary before and after it, where \<open>pre\<close> is the text before the match
  and \<open>post\<close> the text after it. A match of the third pattern is the word, separators,
  and a group of four or more characters of the class that is followed by no further
  character of the class.
\<close>

definition is_tds_token :: "pylib \<Rightarrow> pystr \<Rightarrow> bool" where
  "is_tds_token lib m =
     (\<exists>h body. m = h @ [123] @ body @ [125] \<and> ci_word lib (lit ''tds'') h \<and> body \<noteq> []
        \<and> 125 \<notin> set body)"

definition is_match2 :: "pylib \<Rightarrow> pystr \<Rightarrow> pystr \<Rightarrow> pystr \<Rightarrow> bool" where
  "is_match2 lib pre m post =
     (6 \<le> length m \<and> list_all is_tok2 m \<and> boundary lib pre (m @ post)
      \<and> boundary lib (pre @ m) post)"

definition is_match3 :: "pylib \<Rightarrow> pystr \<Rightarrow> pystr \<Rightarrow> pystr \<Rightarrow> pystr \<Rightarrow> bool" where
  "is_match3 lib w sep g post =
     (ci_word lib (lit ''secret'') w \<and> list_all (is_sep3 lib) sep \<and> 4 \<le> length g
      \<and> list_all (is_tok3 lib) g \<and> (post = [] \<or> \<not> is_tok3 lib (hd post)))"

text \<open>
  What \<^verbatim>\<open>re.search\<close> returns for each pattern, stated without a search: \<open>has1\<close>,
  \<open>has2\<close> and \<open>has3\<close> say that the pattern matches somewhere in the page, and
  \<open>finds1\<close>, \<open>finds2\<close> and \<open>finds3\<close> say which match is returned. It is the match
  that starts first; of the matches of the second pattern that start there, the longest;
  of the matches of the third pattern that start there, the one with the most separators.
\<close>

definition has1 :: "pylib \<Rightarrow> pystr \<Rightarrow> bool" where
  "has1 lib page = (\<exists>pre m post. page = pre @ m @ post \<and> is_tds_token lib m)"

definition has2 :: "pylib \<Rightarrow> pystr \<Rightarrow> bool" where
  "has2 lib page = (\<exists>pre m post. page = pre @ m @ post \<and> is_match2 lib pre m post)"

definition has3 :: "pylib \<Rightarrow> pystr \<Rightarrow> bool" where
  "has3 lib page =
     (\<exists>pre w sep g post. page = pre @ w @ sep @ g @ post \<and> is_match3 lib w sep g post)"

definition finds1 :: "pylib \<Rightarrow> pystr \<Rightarrow> pystr \<Rightarrow> bool" where
  "finds1 lib page m =
     (\<exists>pre post. page = pre @ m @ post \<and> is_tds_token lib m
        \<and> (\<forall>pre' m' post'. page = pre' @ m' @ post' \<and> is_tds_token lib m'
              \<longrightarrow> length pre \<le> length pre'))"

definition finds2 :: "pylib \<Rightarrow> pystr \<Rightarrow> pystr \<Rightarrow> bool" where
  "finds2 lib page m =
     (\<exists>pre post. page = pre @ m @ post \<and> is_match2 lib pre m post
        \<and> (\<forall>pre' m' post'. page = pre' @ m' @ post' \<and> is_match2 lib pre' m' post'
              \<longrightarrow> length pre < length pre'
                  \<or> (length pre = length pre' \<and> length m' \<le> length m)))"

definition finds3 :: "pylib \<Rightarrow> pystr \<Rightarrow> pystr \<Rightarrow> bool" where
  "finds3 lib page g =
     (\<exists>pre w sep post. page = pre @ w @ sep @ g @ post \<and> is_match3 lib w sep g post
        \<and> (\<forall>pre' w' sep' g' post'.
              page = pre' @ w' @ sep' @ g' @ post' \<and> is_match3 lib w' sep' g' post'
              \<longrightarrow> length pre < length pre'
                  \<or> (length pre = length pre' \<and> length sep' \<le> length sep)))"

section \<open>The outside world\<close>

text \<open>
  The solver talks to web servers at five places of an iteration: the page fetch of
  \<^verbatim>\<open>_fetch_text\<close>, the second fetch of the same page for its anchors, the file download,
  the request to the language model and the submission. What the servers answer is not
  decided by the program, so it is a parameter: for each place a function from the
  number of the iteration and the request to the outcome, either an exception raised by
  the HTTP client or a response. The environment variables read at import time are the
  record \<open>config\<close>; an unset variable is \<open>None\<close>.
\<close>

record world =
  get_page :: "nat \<Rightarrow> pystr \<Rightarrow> exn + http_response"
  get_anchors :: "nat \<Rightarrow> pystr \<Rightarrow> exn + http_response"
  get_file :: "nat \<Rightarrow> pystr \<Rightarrow> exn + http_response"
  post_aipipe :: "nat \<Rightarrow> pystr \<Rightarrow> pystr \<Rightarrow> (pystr \<times> pystr) list \<Rightarrow> exn + http_response"
  post_submit :: "nat \<Rightarrow> pystr \<Rightarrow> pyval \<Rightarrow> exn + http_response"

record config =
  AIPIPE_TOKEN :: "pystr option"
  AIPIPE_URL :: "pystr option"
  ANALYSIS_SUBMIT_URL :: pystr

section \<open>Fetching and the spreadsheet heuristic\<close>

definition nl :: pystr where
  "nl = [10]"

text \<open>
  \<^verbatim>\<open>re.sub(r"\n\s*\n\s*", "\n\n", text)\<close>: a newline (10) followed by whitespace that holds
  another newline is replaced, together with all of that whitespace, by two newlines.
\<close>

function collapse_blank_lines :: "pylib \<Rightarrow> pystr \<Rightarrow> pystr" where
  "collapse_blank_lines lib [] = []"
| "collapse_blank_lines lib (c # r) =
     (if c = 10 \<and> 10 \<in> set (takeWhile (is_space lib) r)
      then nl @ nl @ collapse_blank_lines lib (dropWhile (is_space lib) r)
      else c # collapse_blank_lines lib r)"
  by pat_completeness auto
termination
  by (relation "measure (\<lambda>(lib, s). length s)") (auto simp: le_imp_less_Suc length_dropWhile_le)

text \<open>A URL that is not a string makes the HTTP client raise \<^verbatim>\<open>TypeError\<close>.\<close>

definition fetch_text :: "pylib \<Rightarrow> world \<Rightarrow> nat \<Rightarrow> pyval \<Rightarrow> exn + pystr" where
  "fetch_text lib w n page_url =
     (case page_url of
        PStr u \<Rightarrow>
          (case get_page w n u of
             Inl e \<Rightarrow> Inl e
           | Inr resp \<Rightarrow>
               (case raise_for_status resp of
                  Inl e \<Rightarrow> Inl e
                | Inr r \<Rightarrow> Inr (strip lib (collapse_blank_lines lib (soup_text lib (body r))))))
      | _ \<Rightarrow> Inl TypeError)"

text \<open>
  \<^verbatim>\<open>int(series.sum())\<close> of a numeric column. The sum of an \<^verbatim>\<open>int64\<close> or \<^verbatim>\<open>uint64\<close> column
  is computed by numpy in 64-bit arithmetic, where an addition wraps around, and read as
  a signed or an unsigned number.
\<close>

definition int_of_sum :: "pylib \<Rightarrow> cells \<Rightarrow> exn + int" where
  "int_of_sum lib cs =
     (case cs of
        Int64 ws \<Rightarrow> Inr (sint (sum_list ws))
      | UInt64 ws \<Rightarrow> Inr (uint (sum_list ws))
      | Float64 fs \<Rightarrow> float_sum_int lib fs
      | Other vs \<Rightarrow> Inl TypeError)"

text \<open>The decision of \<^verbatim>\<open>_download_and_process_file\<close> once the table is parsed.\<close>

definition process_frame :: "pylib \<Rightarrow> frame \<Rightarrow> pystr \<Rightarrow> exn + pyval" where
  "process_frame lib df context_text =
     (if contains (lower lib context_text) (lit ''sum'') then
        (case filter col_numeric (columns df) of
           c # _ \<Rightarrow> (case int_of_sum lib (col_cells c) of Inl e \<Rightarrow> Inl e | Inr i \<Rightarrow> Inr (PInt i))
         | [] \<Rightarrow> Inr (PList (to_dict_records df)))
      else Inr (PList (to_dict_records df)))"

text \<open>The choice of the parser by the extension of the link, in lower case.\<close>

definition read_table :: "pylib \<Rightarrow> pystr \<Rightarrow> pystr \<Rightarrow> exn + frame" where
  "read_table lib file_url content =
     (if endswith (lower lib file_url) (lit ''.csv'') then read_csv lib content
      else if endswith (lower lib file_url) (lit ''.xls'')
              \<or> endswith (lower lib file_url) (lit ''.xlsx'')
      then read_excel lib content
      else Inl UnsupportedFileType)"

definition download_and_process_file ::
  "pylib \<Rightarrow> world \<Rightarrow> nat \<Rightarrow> pystr \<Rightarrow> pystr \<Rightarrow> exn + pyval" where
  "download_and_process_file lib w n file_url context_text =
     (case get_file w n file_url of
        Inl e \<Rightarrow> Inl e
      | Inr resp \<Rightarrow>
          (case raise_for_status resp of
             Inl e \<Rightarrow> Inl e
           | Inr r \<Rightarrow>
               (case read_table lib file_url (body r) of
                  Inl e \<Rightarrow> Inl e
                | Inr df \<Rightarrow> process_frame lib df context_text)))"

section \<open>The language model\<close>

text \<open>Subscripts \<^verbatim>\<open>v[0]\<close> and \<^verbatim>\<open>v["message"]\<close> on a value that came out of JSON.\<close>

definition getitem_0 :: "pyval \<Rightarrow> exn + pyval" where
  "getitem_0 v =
     (case v of
        PList l \<Rightarrow> (case l of [] \<Rightarrow> Inl IndexError | x # _ \<Rightarrow> Inr x)
      | PStr s \<Rightarrow> (case s of [] \<Rightarrow> Inl IndexError | c # _ \<Rightarrow> Inr (PStr [c]))
      | PDict d \<Rightarrow> Inl KeyError
      | _ \<Rightarrow> Inl TypeError)"

definition getitem_key :: "pyval \<Rightarrow> pystr \<Rightarrow> exn + pyval" where
  "getitem_key v k =
     (case v of
        PDict d \<Rightarrow> (if has_key d k then Inr (dict_get d k) else Inl KeyError)
      | _ \<Rightarrow> Inl TypeError)"

text \<open>\<^verbatim>\<open>not AIPIPE_TOKEN\<close>: the variable is unset or empty.\<close>

definition unset :: "pystr option \<Rightarrow> bool" where
  "unset v = (case v of None \<Rightarrow> True | Some s \<Rightarrow> s = [])"

definition call_aipipe ::
  "pylib \<Rightarrow> config \<Rightarrow> world \<Rightarrow> nat \<Rightarrow> (pystr \<times> pystr) list \<Rightarrow> exn + pyval" where
  "call_aipipe lib cfg w n messages =
     (if unset (AIPIPE_TOKEN cfg) \<or> unset (AIPIPE_URL cfg) then Inl ConfigError
      else
        (case post_aipipe w n (case AIPIPE_URL cfg of Some u \<Rightarrow> u | None \<Rightarrow> [])
                (case AIPIPE_TOKEN cfg of Some t \<Rightarrow> t | None \<Rightarrow> []) messages of
           Inl e \<Rightarrow> Inl e
         | Inr resp \<Rightarrow>
             (case raise_for_status resp of
                Inl e \<Rightarrow> Inl e
              | Inr r \<Rightarrow>
                  (case json_loads lib (body r) of
                     None \<Rightarrow> Inl DecodeError
                   | Some data \<Rightarrow>
                       (case data of
                          PDict d \<Rightarrow>
                            (let choices = (if has_key d (lit ''choices'')
                                            then dict_get d (lit ''choices'')
                                            else PList [])
                             in if \<not> truthy choices then Inr (PStr [])
                                else
                                  (case getitem_0 choices of
                                     Inl e \<Rightarrow> Inl e
                                   | Inr c0 \<Rightarrow>
                                       (case getitem_key c0 (lit ''message'') of
                                          Inl e \<Rightarrow> Inl e
                                        | Inr m \<Rightarrow> getitem_key m (lit ''content''))))
                        | _ \<Rightarrow> Inl AttributeError)))))"

text \<open>\<^verbatim>\<open>re.search(r"(\{[\s\S]*\})", s)\<close>: from the first opening brace (123) to the last
  closing brace (125) after it.\<close>

definition brace_search :: "pystr \<Rightarrow> pystr option" where
  "brace_search s =
     (case dropWhile (\<lambda>c. c \<noteq> 123) s of
        [] \<Rightarrow> None
      | c # r \<Rightarrow>
          (let inner = rev (dropWhile (\<lambda>c. c \<noteq> 125) (rev r))
           in if inner = [] then None else Some (c # inner)))"

definition system_prompt :: pystr where
  \<open>system_prompt = lit ''You are a helpful assistant that outputs a JSON with '' @ [39]
     @ lit ''answer'' @ [39] @ lit '' and '' @ [39] @ lit ''explanation'' @ [39] @ lit ''.''\<close>

definition user_prompt :: "pystr \<Rightarrow> pystr \<Rightarrow> pystr" where
  \<open>user_prompt page_url page_text =
     nl @ lit ''URL: '' @ page_url @ nl @ nl @ lit ''Page content:'' @ nl @ take 15000 page_text
     @ nl @ nl @ lit ''Return ONLY JSON:'' @ nl @ lit ''{'' @ nl @ lit ''  "answer": "<value>",''
     @ nl @ lit ''  "explanation": "<short reasoning>"'' @ nl @ lit ''}'' @ nl\<close>

definition solve_page_with_llm ::
  "pylib \<Rightarrow> config \<Rightarrow> world \<Rightarrow> nat \<Rightarrow> pystr \<Rightarrow> pystr \<Rightarrow> exn + pyval" where
  "solve_page_with_llm lib cfg w n page_url page_text =
     (case call_aipipe lib cfg w n
             [(lit ''system'', system_prompt), (lit ''user'', user_prompt page_url page_text)] of
        Inl e \<Rightarrow> Inl e
      | Inr out \<Rightarrow>
          (case out of
             PStr t \<Rightarrow>
               (let assistant_output = strip lib t in
                case json_loads lib assistant_output of
                  Some v \<Rightarrow> Inr v
                | None \<Rightarrow>
                    (case brace_search assistant_output of
                       Some m \<Rightarrow>
                         (case json_loads lib m of
                            Some v \<Rightarrow> Inr v
                          | None \<Rightarrow> Inr (PStr assistant_output))
                     | None \<Rightarrow> Inr (PStr assistant_output)))
           | _ \<Rightarrow> Inl AttributeError))"

section \<open>Submission\<close>

record submit_result =
  res_status_code :: int
  res_parsed :: pyval
  res_raw_text :: pystr
  res_submitted_answer :: pyval

definition submit_to_analysis ::
  "pylib \<Rightarrow> config \<Rightarrow> world \<Rightarrow> nat \<Rightarrow> pystr \<Rightarrow> pystr \<Rightarrow> pyval \<Rightarrow> pyval
     \<Rightarrow> exn + submit_result" where
  "submit_to_analysis lib cfg w n email secret page_url answer =
     (let final_ans = normalize_answer_for_submission lib answer;
          payload = PDict [(lit ''email'', PStr email), (lit ''secret'', PStr secret),
                           (lit ''url'', page_url), (lit ''answer'', final_ans)]
      in case post_submit w n (ANALYSIS_SUBMIT_URL cfg) payload of
           Inl e \<Rightarrow> Inl e
         | Inr resp \<Rightarrow>
             Inr \<lparr>res_status_code = status_code resp,
                  res_parsed = (case json_loads lib (body resp) of
                                  Some v \<Rightarrow> v
                                | None \<Rightarrow> PDict [(lit ''raw'', PStr (body resp))]),
                  res_raw_text = body resp,
                  res_submitted_answer = final_ans\<rparr>)"

section \<open>The chain solver\<close>

text \<open>
  A step record is the dictionary \<^verbatim>\<open>record\<close> of one iteration. The keys \<^verbatim>\<open>step\<close> and
  \<^verbatim>\<open>url\<close> are always there; every other key is \<open>None\<close> until the iteration sets it
  (the key \<^verbatim>\<open>method\<close> is the field \<open>method_used\<close>).
  The key \<^verbatim>\<open>error\<close> holds the exception whose text the source stores.
\<close>

datatype solve_method = file_heuristic | extracted_secret | aipipe

record step_record =
  step :: nat
  url :: pyval
  method_used :: "solve_method option"
  file_error :: "exn option"
  raw_answer :: "pyval option"
  submit_status :: "int option"
  submitted_answer :: "pyval option"
  submit_parsed :: "pyval option"
  next_url :: "pyval option"
  error :: "exn option"

definition new_record :: "nat \<Rightarrow> pyval \<Rightarrow> step_record" where
  "new_record step_no current_url =
     \<lparr>step = step_no, url = current_url, method_used = None, file_error = None, raw_answer = None,
      submit_status = None, submitted_answer = None, submit_parsed = None, next_url = None,
      error = None\<rparr>"

text \<open>Step 2 of an iteration: the first anchor whose trimmed \<^verbatim>\<open>href\<close> ends, in lower case,
  in one of the three extensions.\<close>

definition is_file_href :: "pylib \<Rightarrow> pystr \<Rightarrow> bool" where
  "is_file_href lib h =
     (let l = lower lib (strip lib h)
      in endswith l (lit ''.csv'') \<or> endswith l (lit ''.xls'') \<or> endswith l (lit ''.xlsx''))"

definition find_file_link :: "pylib \<Rightarrow> pystr \<Rightarrow> pystr list \<Rightarrow> pystr option" where
  "find_file_link lib current_url hrefs =
     (case find (is_file_href lib) hrefs of
        None \<Rightarrow> None
      | Some h \<Rightarrow>
          (let href = strip lib h
           in Some (if startswith href (lit ''http'') then href
                    else urljoin lib current_url href)))"

text \<open>Step 5: the next URL out of the parsed grading response.\<close>

definition extract_next_url :: "pylib \<Rightarrow> pyval \<Rightarrow> pyval" where
  "extract_next_url lib parsed =
     (case parsed of
        PDict d \<Rightarrow>
          (let nu = dict_get d (lit ''url'') in
           case nu of
             PStr s \<Rightarrow>
               (if startswith s (lit ''{'') then
                  (case json_loads lib s of
                     Some nested \<Rightarrow>
                       (case nested of PDict nd \<Rightarrow> dict_get nd (lit ''url'') | _ \<Rightarrow> nu)
                   | None \<Rightarrow> nu)
                else nu)
           | _ \<Rightarrow> nu)
      | _ \<Rightarrow> PNone)"

text \<open>
  Steps 4 and 5 once the submission has returned: the record takes the status, the
  submitted answer, the parsed response and the next URL, and is appended. The second
  component is the URL of the following iteration, \<open>None\<close> for \<^verbatim>\<open>break\<close>.
\<close>

definition after_submit ::
  "pylib \<Rightarrow> step_record \<Rightarrow> submit_result \<Rightarrow> step_record \<times> pyval option" where
  "after_submit lib record submit_res =
     (let nu = extract_next_url lib (res_parsed submit_res)
      in (record\<lparr>submit_status := Some (res_status_code submit_res),
                 submitted_answer := Some (res_submitted_answer submit_res),
                 submit_parsed := Some (res_parsed submit_res),
                 next_url := Some nu\<rparr>,
          if \<not> truthy nu then None else Some nu))"

text \<open>The handler \<^verbatim>\<open>except Exception as e\<close> of the iteration: the record takes the error, is
  appended, and the loop breaks.\<close>

definition on_exception :: "step_record \<Rightarrow> exn \<Rightarrow> step_record \<times> pyval option" where
  "on_exception record e = (record\<lparr>error := Some e\<rparr>, None)"

text \<open>Step 3A: the file heuristic, whose failure is kept in the record and not raised.\<close>

definition try_file ::
  "pylib \<Rightarrow> world \<Rightarrow> nat \<Rightarrow> pystr option \<Rightarrow> pystr \<Rightarrow> step_record \<Rightarrow> step_record \<times> pyval" where
  "try_file lib w n file_link page_text record =
     (case file_link of
        None \<Rightarrow> (record, PNone)
      | Some link \<Rightarrow>
          (if link = [] then (record, PNone)
           else
             (case download_and_process_file lib w n link page_text of
                Inr a \<Rightarrow> (record\<lparr>method_used := Some file_heuristic\<rparr>, a)
              | Inl e \<Rightarrow> (record\<lparr>method_used := Some file_heuristic, file_error := Some e\<rparr>, PNone))))"

text \<open>Step 3B: secret extraction, when there is no answer yet.\<close>

definition try_secret :: "pylib \<Rightarrow> pystr \<Rightarrow> step_record \<times> pyval \<Rightarrow> step_record \<times> pyval" where
  "try_secret lib page_text ra =
     (case ra of (record, answer) \<Rightarrow>
        (if answer = PNone then
           (case extract_secret_from_text lib page_text of
              Some extracted \<Rightarrow>
                (if extracted \<noteq> [] then (record\<lparr>method_used := Some extracted_secret\<rparr>, PStr extracted)
                 else (record, answer))
            | None \<Rightarrow> (record, answer))
         else (record, answer)))"

text \<open>Step 3C: the language model, when there is still no answer. Its exception ends the
  iteration; the record it is raised with already names the method.\<close>

definition try_llm ::
  "pylib \<Rightarrow> config \<Rightarrow> world \<Rightarrow> nat \<Rightarrow> pystr \<Rightarrow> pystr \<Rightarrow> step_record \<times> pyval
     \<Rightarrow> step_record \<times> exn + step_record \<times> pyval" where
  "try_llm lib cfg w n page_url page_text ra =
     (if snd ra = PNone then
        (case solve_page_with_llm lib cfg w n page_url page_text of
           Inl e \<Rightarrow> Inl ((fst ra)\<lparr>method_used := Some aipipe\<rparr>, e)
         | Inr a \<Rightarrow> Inr ((fst ra)\<lparr>method_used := Some aipipe\<rparr>, a))
      else Inr ra)"

text \<open>One iteration of the \<^verbatim>\<open>while\<close> loop, for the step number \<open>step_no\<close> already increased.\<close>

definition run_step ::
  "pylib \<Rightarrow> config \<Rightarrow> world \<Rightarrow> pystr \<Rightarrow> pystr \<Rightarrow> nat \<Rightarrow> pyval \<Rightarrow> step_record \<times> pyval option" where
  "run_step lib cfg w email secret step_no current_url =
     (let record = new_record step_no current_url in
      case fetch_text lib w step_no current_url of
        Inl e \<Rightarrow> on_exception record e
      | Inr page_text \<Rightarrow>
          (let cur = (case current_url of PStr u \<Rightarrow> u | _ \<Rightarrow> []) in
           case get_anchors w step_no cur of
             Inl e \<Rightarrow> on_exception record e
           | Inr resp2 \<Rightarrow>
               (let file_link = find_file_link lib cur (soup_hrefs lib (body resp2));
                    ra = try_secret lib page_text
                           (try_file lib w step_no file_link page_text record)
                in case try_llm lib cfg w step_no cur page_text ra of
                     Inl re \<Rightarrow> on_exception (fst re) (snd re)
                   | Inr ra \<Rightarrow>
                       (let record = (fst ra)\<lparr>raw_answer := Some (snd ra)\<rparr>
                        in case submit_to_analysis lib cfg w step_no email secret current_url
                                  (snd ra) of
                             Inl e \<Rightarrow> on_exception record e
                           | Inr submit_res \<Rightarrow> after_submit lib record submit_res))))"

text \<open>
  The loop \<^verbatim>\<open>while current_url and step_no < max_steps\<close>, with its three variables
  \<open>step_no\<close>, \<open>current_url\<close> and \<open>steps\<close> as arguments.
\<close>

function solve_loop ::
  "pylib \<Rightarrow> config \<Rightarrow> world \<Rightarrow> pystr \<Rightarrow> pystr \<Rightarrow> int \<Rightarrow> nat \<Rightarrow> pyval
     \<Rightarrow> step_record list \<Rightarrow> step_record list" where
  "solve_loop lib cfg w email secret max_steps step_no current_url steps =
     (if truthy current_url \<and> int step_no < max_steps then
        (case run_step lib cfg w email secret (Suc step_no) current_url of
           (record, None) \<Rightarrow> steps @ [record]
         | (record, Some nu) \<Rightarrow>
             solve_loop lib cfg w email secret max_steps (Suc step_no) nu (steps @ [record]))
      else steps)"
  by pat_completeness auto
termination
  by (relation "measure (\<lambda>(lib, cfg, w, email, secret, max_steps, step_no, current_url, steps).
        nat (max_steps - int step_no))") auto

record chain_result =
  result :: pystr
  steps_done :: int
  meets_required_steps :: bool
  steps :: "step_record list"

definition solve_quiz ::
  "pylib \<Rightarrow> config \<Rightarrow> world \<Rightarrow> pystr \<Rightarrow> pystr \<Rightarrow> pystr \<Rightarrow> int \<Rightarrow> int \<Rightarrow> chain_result" where
  "solve_quiz lib cfg w email secret start_url required_min_steps max_steps =
     (let all_steps = solve_loop lib cfg w email secret max_steps 0 (PStr start_url) [];
          total = int (length all_steps);
          success = list_all (\<lambda>s. (case submit_status s of None \<Rightarrow> 500 | Some c \<Rightarrow> c) < 400)
                      all_steps
      in \<lparr>result = (if success then lit ''chain_completed'' else lit ''chain_with_errors''),
          steps_done = total,
          meets_required_steps = (total \<ge> required_min_steps),
          steps = all_steps\<rparr>)"

text \<open>
  The shape of a step log: the step numbers are 1, 2, ... in order, and no record but the
  last one has an error.
\<close>

definition step_log_ok :: "step_record list \<Rightarrow> bool" where
  "step_log_ok rs = (map step rs = [1 ..< Suc (length rs)]
     \<and> (\<forall>i < length rs. error (rs ! i) \<noteq> None \<longrightarrow> Suc i = length rs))"

text \<open>
  The iterations of a run. \<open>url_after lib cfg w email secret n cur j\<close> is the value of
  \<^verbatim>\<open>current_url\<close> after \<open>j\<close> iterations of a loop that starts with the step number \<open>n\<close>
  and the URL \<open>cur\<close>, and \<open>None\<close> when the loop has ended before, by a \<^verbatim>\<open>break\<close> or with
  a URL that is not true; the bound \<^verbatim>\<open>max_steps\<close> is left out of it. \<open>chain_url\<close> is that
  for the loop of \<^verbatim>\<open>solve_quiz\<close>: the URL that iteration \<open>k + 1\<close> of the chain works on.
\<close>

fun url_after ::
  "pylib \<Rightarrow> config \<Rightarrow> world \<Rightarrow> pystr \<Rightarrow> pystr \<Rightarrow> nat \<Rightarrow> pyval \<Rightarrow> nat \<Rightarrow> pyval option" where
  "url_after lib cfg w email secret n cur 0 = (if truthy cur then Some cur else None)"
| "url_after lib cfg w email secret n cur (Suc j) =
     (case url_after lib cfg w email secret n cur j of
        None \<Rightarrow> None
      | Some u \<Rightarrow> snd (run_step lib cfg w email secret (Suc (n + j)) u))"

definition chain_url ::
  "pylib \<Rightarrow> config \<Rightarrow> world \<Rightarrow> pystr \<Rightarrow> pystr \<Rightarrow> pystr \<Rightarrow> nat \<Rightarrow> pyval option" where
  "chain_url lib cfg w email secret start_url k =
     url_after lib cfg w email secret 0 (PStr start_url) k"

text \<open>
  A record of the iteration \<open>n\<close> on the URL \<open>cur\<close> that is still under way: it has
  neither an error nor anything of the submission.
\<close>

definition pending :: "nat \<Rightarrow> pyval \<Rightarrow> step_record \<Rightarrow> bool" where
  "pending n cur r =
     (step r = n \<and> url r = cur \<and> error r = None \<and> submit_status r = None
      \<and> submit_parsed r = None \<and> next_url r = None)"

section \<open>A small world for the examples\<close>

text \<open>
  The examples below run the model on concrete inputs. They use one instance of the
  library, which knows what the examples need:
  \<^item> \<^verbatim>\<open>json.loads\<close> parses the JSON texts of \<open>sample_json\<close> and raises on every other
    text; \<^verbatim>\<open>json.dumps\<close> and \<^verbatim>\<open>str\<close> know the values of \<open>sample_dumps\<close> and \<open>sample_strs\<close>;
  \<^item> \<^verbatim>\<open>int\<close> has the default limit of 4300 digits;
  \<^item> a page is its own visible text and has no anchors;
  \<^item> \<^verbatim>\<open>read_csv\<close> parses the three files \<open>csv_small\<close>, \<open>csv_big\<close> and \<open>csv_names\<close>;
  \<^item> the sum of a float column adds the cells without rounding, which is what pandas
    gives when no addition rounds, and truncates towards zero;
  \<^item> from 256 on, the white space is that of Unicode, the letters and digits are the
    dotted capital I (0x130), the dotless i (0x131), the long s (0x17F), the Kelvin sign
    (0x212A) and the Arabic-Indic digits (0x660 to 0x669), and the dotted capital I and
    the Kelvin sign have the lower-case forms i and k.
\<close>

definition sample_json :: "(pystr \<times> pyval) list" where
  \<open>sample_json =
     [(lit ''{"url": "https://x/next"}'', PDict [(lit ''url'', PStr (lit ''https://x/next''))]),
      (lit ''{"url": "https://x/bad"}'', PDict [(lit ''url'', PStr (lit ''https://x/bad''))]),
      (lit ''{"url": "{'' @ [92] @ lit ''"url'' @ [92] @ lit ''": '' @ [92]
         @ lit ''"https://x/next'' @ [92] @ lit ''"}"}'',
       PDict [(lit ''url'', PStr (lit ''{"url": "https://x/next"}''))]),
      (lit ''{"choices": []}'', PDict [(lit ''choices'', PList [])]),
      (lit ''{"correct": true}'', PDict [(lit ''correct'', PBool True)]),
      (lit ''[1, 2]'', PList [PInt 1, PInt 2])]\<close>

definition sample_dumps :: "(pyval \<times> pystr) list" where
  \<open>sample_dumps =
     [(PNone, lit ''null''), (PList [], lit ''[]''), (PList [PInt 1, PInt 2], lit ''[1, 2]''),
      (PDict [], lit ''{}'')]\<close>

definition sample_strs :: "(pyval \<times> pystr) list" where
  \<open>sample_strs =
     [(PNone, lit ''None''), (PList [], lit ''[]''), (PList [PInt 1, PInt 2], lit ''[1, 2]''),
      (PDict [], lit ''{}'')]\<close>

definition sample_str :: "pyval \<Rightarrow> pystr" where
  "sample_str v = (case map_of sample_strs v of Some s \<Rightarrow> s | None \<Rightarrow> lit ''<object>'')"

definition csv_small :: pystr where
  "csv_small = lit ''name,a'' @ nl @ lit ''x,1'' @ nl @ lit ''y,2'' @ nl @ lit ''z,3'' @ nl"

definition csv_big :: pystr where
  "csv_big = lit ''a'' @ nl @ lit ''9223372036854775807'' @ nl @ lit ''1'' @ nl"

definition csv_names :: pystr where
  "csv_names = lit ''name'' @ nl @ lit ''x'' @ nl @ lit ''y'' @ nl"

definition sample_frame :: frame where
  "sample_frame =
     \<lparr>nrows = 3,
      columns = [\<lparr>col_name = lit ''name'',
                  col_cells = Other [PStr (lit ''x''), PStr (lit ''y''), PStr (lit ''z'')]\<rparr>,
                 \<lparr>col_name = lit ''a'', col_cells = Int64 [1, 2, 3]\<rparr>]\<rparr>"

definition big_frame :: frame where
  "big_frame =
     \<lparr>nrows = 2, columns = [\<lparr>col_name = lit ''a'', col_cells = Int64 [9223372036854775807, 1]\<rparr>]\<rparr>"

definition names_frame :: frame where
  "names_frame =
     \<lparr>nrows = 2,
      columns = [\<lparr>col_name = lit ''name'', col_cells = Other [PStr (lit ''x''), PStr (lit ''y'')]\<rparr>]\<rparr>"

definition sample_read_csv :: "pystr \<Rightarrow> exn + frame" where
  "sample_read_csv content =
     (if content = csv_small then Inr sample_frame
      else if content = csv_big then Inr big_frame
      else if content = csv_names then Inr names_frame
      else Inl ValueError)"

definition scaled :: "int \<Rightarrow> pyfloat \<Rightarrow> int" where
  "scaled e0 f =
     (case f of
        Finite neg m e \<Rightarrow> (if neg then - 1 else 1) * int m * 2 ^ nat (e - e0)
      | _ \<Rightarrow> 0)"

definition sample_float_sum :: "pyfloat list \<Rightarrow> exn + int" where
  "sample_float_sum fs =
     (if Infinite False \<in> set fs \<and> Infinite True \<in> set fs then Inl ValueError
      else if Infinite False \<in> set fs \<or> Infinite True \<in> set fs then Inl OverflowError
      else
        (let e0 = fold (\<lambda>f a. case f of Finite neg m e \<Rightarrow> min e a | _ \<Rightarrow> a) fs 0;
             total = sum_list (map (scaled e0) fs)
         in Inr (sgn total * (\<bar>total\<bar> div 2 ^ nat (- e0)))))"

definition sample_isspace :: "nat \<Rightarrow> bool" where
  "sample_isspace c =
     (c = 5760 \<or> (8192 \<le> c \<and> c \<le> 8202) \<or> c = 8232 \<or> c = 8233 \<or> c = 8239 \<or> c = 8287
      \<or> c = 12288)"

definition sample_isalnum :: "nat \<Rightarrow> bool" where
  "sample_isalnum c = (c = 304 \<or> c = 305 \<or> c = 383 \<or> c = 8490 \<or> (1632 \<le> c \<and> c \<le> 1641))"

definition sample_decimal :: "nat \<Rightarrow> nat option" where
  "sample_decimal c = (if 1632 \<le> c \<and> c \<le> 1641 then Some (c - 1632) else None)"

definition sample_tolower :: "nat \<Rightarrow> nat" where
  "sample_tolower c = (if c = 304 then 105 else if c = 8490 then 107 else c)"

definition sample_lower :: "pystr \<Rightarrow> pystr" where
  "sample_lower s =
     concat (map (\<lambda>c. if c = 304 then [105, 775]
                      else if c < 256 then [latin_lower c] else [sample_tolower c]) s)"

definition sample_lib :: pylib where
  "sample_lib =
     \<lparr>json_loads = map_of sample_json,
      json_dumps = map_of sample_dumps,
      py_str = sample_str,
      int_max_str_digits = 4300,
      soup_text = (\<lambda>html. html),
      soup_hrefs = (\<lambda>html. []),
      urljoin = (\<lambda>base href. base @ href),
      read_csv = sample_read_csv,
      read_excel = (\<lambda>content. Inl ValueError),
      float_sum_int = sample_float_sum,
      uni_isspace = sample_isspace,
      uni_isalnum = sample_isalnum,
      uni_decimal = sample_decimal,
      uni_tolower = sample_tolower,
      uni_lower = sample_lower\<rparr>"

definition sample_config :: config where
  "sample_config =
     \<lparr>AIPIPE_TOKEN = Some (lit ''token''), AIPIPE_URL = Some (lit ''https://llm/api''),
      ANALYSIS_SUBMIT_URL = lit ''https://tds-llm-analysis.s-anand.net/submit''\<rparr>"

text \<open>
  In \<open>chain_world\<close> every page but \<^verbatim>\<open>https://x/bad\<close> shows a secret token, the page
  \<^verbatim>\<open>https://x/bad\<close> cannot be fetched, and the grader answers 200 with the next URL
  \<^verbatim>\<open>https://x/next\<close>. The other worlds differ from it in one answer: in \<open>bad_world\<close>
  the grader's next URL is \<^verbatim>\<open>https://x/bad\<close>, in \<open>nested_world\<close> it is the next URL
  wrapped in a JSON text, in \<open>ending_world\<close> the grader gives no next URL, in
  \<open>refusing_world\<close> it answers 403, in \<open>file_world\<close> every file link serves a CSV file,
  and in \<open>empty_choices_world\<close> the language model answers 200 with an empty list of
  choices.
\<close>

definition sample_page :: http_response where
  "sample_page = \<lparr>status_code = 200, body = lit ''code tds{abc123}''\<rparr>"

definition chain_world :: world where
  \<open>chain_world =
     \<lparr>get_page = (\<lambda>n u. if u = lit ''https://x/bad'' then Inl TransportError else Inr sample_page),
      get_anchors = (\<lambda>n u. Inr sample_page),
      get_file = (\<lambda>n u. Inl TransportError),
      post_aipipe = (\<lambda>n u t m. Inl TransportError),
      post_submit = (\<lambda>n u p. Inr \<lparr>status_code = 200, body = lit ''{"url": "https://x/next"}''\<rparr>)\<rparr>\<close>

definition bad_world :: world where
  \<open>bad_world = chain_world
     \<lparr>post_submit := (\<lambda>n u p. Inr \<lparr>status_code = 200, body = lit ''{"url": "https://x/bad"}''\<rparr>)\<rparr>\<close>

definition nested_world :: world where
  \<open>nested_world = chain_world
     \<lparr>post_submit := (\<lambda>n u p. Inr \<lparr>status_code = 200,
          body = lit ''{"url": "{'' @ [92] @ lit ''"url'' @ [92] @ lit ''": '' @ [92]
                 @ lit ''"https://x/next'' @ [92] @ lit ''"}"}''\<rparr>)\<rparr>\<close>

definition ending_world :: world where
  \<open>ending_world = chain_world
     \<lparr>post_submit := (\<lambda>n u p. Inr \<lparr>status_code = 200, body = lit ''{"correct": true}''\<rparr>)\<rparr>\<close>

definition refusing_world :: world where
  \<open>refusing_world = chain_world
     \<lparr>post_submit := (\<lambda>n u p. Inr \<lparr>status_code = 403, body = lit ''{"url": "https://x/next"}''\<rparr>)\<rparr>\<close>

definition file_world :: "pystr \<Rightarrow> world" where
  \<open>file_world content = chain_world
     \<lparr>get_file := (\<lambda>n u. Inr \<lparr>status_code = 200, body = content\<rparr>)\<rparr>\<close>

definition empty_choices_world :: world where
  \<open>empty_choices_world = chain_world
     \<lparr>post_aipipe := (\<lambda>n u t m. Inr \<lparr>status_code = 200, body = lit ''{"choices": []}''\<rparr>)\<rparr>\<close>

text \<open>
  An iteration on a page that shows the token: the token is extracted and submitted, and
  the record takes what the grader answers.
\<close>

definition token_record :: "nat \<Rightarrow> pystr \<Rightarrow> int \<Rightarrow> pyval \<Rightarrow> pyval \<Rightarrow> step_record" where
  "token_record n u c parsed nu =
     \<lparr>step = n, url = PStr u, method_used = Some extracted_secret, file_error = None,
      raw_answer = Some (PStr (lit ''tds{abc123}'')), submit_status = Some c,
      submitted_answer = Some (PStr (lit ''tds{abc123}'')), submit_parsed = Some parsed,
      next_url = Some nu, error = None\<rparr>"

section \<open>Properties of one iteration\<close>

lemma truthy_PStr [simp]: "truthy (PStr v) = (v \<noteq> [])"
  by (simp add: truthy_def)

lemma pending_new_record: "pending n cur (new_record n cur)"
  by (simp add: pending_def new_record_def)

lemma pending_try_file: "pending n cur r \<Longrightarrow> pending n cur (fst (try_file lib w k fl t r))"
  by (simp add: pending_def try_file_def split: option.splits sum.splits)

lemma pending_try_secret: "pending n cur (fst ra) \<Longrightarrow> pending n cur (fst (try_secret lib t ra))"
  by (cases ra) (auto simp: pending_def try_secret_def split: option.splits)

lemma pending_try_llm_Inl:
  "try_llm lib cfg w k u t ra = Inl re \<Longrightarrow> pending n cur (fst ra) \<Longrightarrow> pending n cur (fst re)"
  by (auto simp: pending_def try_llm_def split: if_splits sum.splits)

lemma pending_try_llm_Inr:
  "try_llm lib cfg w k u t ra = Inr ra' \<Longrightarrow> pending n cur (fst ra) \<Longrightarrow> pending n cur (fst ra')"
  by (auto simp: pending_def try_llm_def split: if_splits sum.splits)

lemma pending_raw_answer: "pending n cur r \<Longrightarrow> pending n cur (r\<lparr>raw_answer := a\<rparr>)"
  by (simp add: pending_def)

text \<open>
  An iteration ends in one of two ways: in the exception handler or after the submission,
  in both cases with a record that was under way until then.
\<close>

lemma run_step_shape:
  "(\<exists>r e. run_step lib cfg w email secret n cur = on_exception r e \<and> pending n cur r)
   \<or> (\<exists>r res. run_step lib cfg w email secret n cur = after_submit lib r res \<and> pending n cur r)"
proof (cases "fetch_text lib w n cur")
  case (Inl e)
  then have "run_step lib cfg w email secret n cur = on_exception (new_record n cur) e"
    by (simp add: run_step_def)
  then show ?thesis using pending_new_record by blast
next
  case fetched: (Inr page_text)
  let ?u = "case cur of PStr u \<Rightarrow> u | _ \<Rightarrow> []"
  show ?thesis
  proof (cases "get_anchors w n ?u")
    case (Inl e)
    with fetched have "run_step lib cfg w email secret n cur = on_exception (new_record n cur) e"
      by (simp add: run_step_def)
    then show ?thesis using pending_new_record by blast
  next
    case anchors: (Inr resp2)
    let ?ra = "try_secret lib page_text (try_file lib w n
                 (find_file_link lib ?u (soup_hrefs lib (body resp2))) page_text (new_record n cur))"
    have ra: "pending n cur (fst ?ra)"
      by (intro pending_try_secret pending_try_file pending_new_record)
    show ?thesis
    proof (cases "try_llm lib cfg w n ?u page_text ?ra")
      case (Inl re)
      with fetched anchors
      have "run_step lib cfg w email secret n cur = on_exception (fst re) (snd re)"
        by (simp add: run_step_def)
      moreover from pending_try_llm_Inl [OF Inl ra] have "pending n cur (fst re)" .
      ultimately show ?thesis by blast
    next
      case answered: (Inr ra')
      let ?r = "(fst ra')\<lparr>raw_answer := Some (snd ra')\<rparr>"
      from pending_try_llm_Inr [OF answered ra]
      have r: "pending n cur ?r"
        by (rule pending_raw_answer)
      show ?thesis
      proof (cases "submit_to_analysis lib cfg w n email secret cur (snd ra')")
        case (Inl e)
        with fetched anchors answered
        have "run_step lib cfg w email secret n cur = on_exception ?r e"
          by (simp add: run_step_def)
        with r show ?thesis by blast
      next
        case (Inr res)
        with fetched anchors answered
        have "run_step lib cfg w email secret n cur = after_submit lib ?r res"
          by (simp add: run_step_def)
        with r show ?thesis by blast
      qed
    qed
  qed
qed

lemma run_step_step: "step (fst (run_step lib cfg w email secret n cur)) = n"
  using run_step_shape [of lib cfg w email secret n cur]
  by (auto simp: pending_def on_exception_def after_submit_def Let_def)

lemma run_step_url: "url (fst (run_step lib cfg w email secret n cur)) = cur"
  using run_step_shape [of lib cfg w email secret n cur]
  by (auto simp: pending_def on_exception_def after_submit_def Let_def)

lemma run_step_continue:
  "snd (run_step lib cfg w email secret n cur) = Some nu \<Longrightarrow>
     error (fst (run_step lib cfg w email secret n cur)) = None \<and> truthy nu
     \<and> submit_status (fst (run_step lib cfg w email secret n cur)) \<noteq> None"
  using run_step_shape [of lib cfg w email secret n cur]
  by (auto simp: pending_def on_exception_def after_submit_def Let_def split: if_splits)

text \<open>An iteration that leaves an error in its record ends the loop.\<close>

lemma run_step_error:
  "error (fst (run_step lib cfg w email secret n cur)) \<noteq> None \<Longrightarrow>
     snd (run_step lib cfg w email secret n cur) = None"
  using run_step_shape [of lib cfg w email secret n cur]
  by (auto simp: pending_def on_exception_def after_submit_def Let_def split: if_splits)

text \<open>An iteration whose record holds a parsed response takes its next URL from it.\<close>

lemma run_step_parsed:
  "submit_parsed (fst (run_step lib cfg w email secret n cur)) = Some p \<Longrightarrow>
     next_url (fst (run_step lib cfg w email secret n cur)) = Some (extract_next_url lib p)
     \<and> snd (run_step lib cfg w email secret n cur) =
         (if truthy (extract_next_url lib p) then Some (extract_next_url lib p) else None)"
  using run_step_shape [of lib cfg w email secret n cur]
  by (auto simp: pending_def on_exception_def after_submit_def Let_def split: if_splits)

section \<open>Properties of the loop\<close>

declare solve_loop.simps [simp del]

lemma solve_loop_stop:
  "\<not> (truthy cur \<and> int step_no < max_steps) \<Longrightarrow>
     solve_loop lib cfg w email secret max_steps step_no cur log = log"
  by (subst solve_loop.simps) auto

lemma solve_loop_break:
  "truthy cur \<Longrightarrow> int step_no < max_steps \<Longrightarrow>
   run_step lib cfg w email secret (Suc step_no) cur = (r, None) \<Longrightarrow>
     solve_loop lib cfg w email secret max_steps step_no cur log = log @ [r]"
  by (subst solve_loop.simps) simp

lemma solve_loop_continue:
  "truthy cur \<Longrightarrow> int step_no < max_steps \<Longrightarrow>
   run_step lib cfg w email secret (Suc step_no) cur = (r, Some nu) \<Longrightarrow>
     solve_loop lib cfg w email secret max_steps step_no cur log =
     solve_loop lib cfg w email secret max_steps (Suc step_no) nu (log @ [r])"
  by (subst solve_loop.simps) simp

lemma step_log_ok_snoc:
  assumes "map step rs = [1 ..< Suc (length rs)]" "\<forall>s \<in> set rs. error s = None"
    and "step r = Suc (length rs)"
  shows "step_log_ok (rs @ [r])"
  using assms by (auto simp: step_log_ok_def nth_append)

text \<open>
  The invariant of the loop: while it runs, the log holds the records of the steps 1 to
  \<open>step_no\<close>, none with an error. At its end the step numbers are still consecutive,
  an error can only be in the last record, and the log is no longer than \<open>max_steps\<close>
  unless it was so at the start.
\<close>

lemma solve_loop_inv:
  "length log = step_no \<Longrightarrow> map step log = [1 ..< Suc step_no] \<Longrightarrow>
   (\<forall>s \<in> set log. error s = None) \<Longrightarrow>
     step_log_ok (solve_loop lib cfg w email secret max_steps step_no cur log)
     \<and> int (length (solve_loop lib cfg w email secret max_steps step_no cur log))
         \<le> max (int step_no) max_steps"
proof (induction lib cfg w email secret max_steps step_no cur log rule: solve_loop.induct)
  case (1 lib cfg w email secret max_steps step_no cur log)
  show ?case
  proof (cases "truthy cur \<and> int step_no < max_steps")
    case False
    with "1.prems" show ?thesis
      by (simp add: solve_loop_stop step_log_ok_def)
  next
    case True
    obtain r ctl where rs: "run_step lib cfg w email secret (Suc step_no) cur = (r, ctl)"
      by (cases "run_step lib cfg w email secret (Suc step_no) cur")
    have st: "step r = Suc step_no"
      using run_step_step [of lib cfg w email secret "Suc step_no" cur] rs by simp
    show ?thesis
    proof (cases ctl)
      case None
      with True rs
      have eq: "solve_loop lib cfg w email secret max_steps step_no cur log = log @ [r]"
        by (simp add: solve_loop_break)
      from "1.prems" st have "step_log_ok (log @ [r])"
        by (intro step_log_ok_snoc) simp_all
      with eq True "1.prems" show ?thesis by simp
    next
      case (Some nu)
      with True rs
      have eq: "solve_loop lib cfg w email secret max_steps step_no cur log =
                solve_loop lib cfg w email secret max_steps (Suc step_no) nu (log @ [r])"
        by (simp add: solve_loop_continue)
      have ne: "error r = None"
        using run_step_continue [of lib cfg w email secret "Suc step_no" cur nu] rs Some by simp
      let ?l = "solve_loop lib cfg w email secret max_steps (Suc step_no) nu (log @ [r])"
      have "step_log_ok ?l \<and> int (length ?l) \<le> max (int (Suc step_no)) max_steps"
        using "1.prems" st ne True rs Some
        by (intro "1.IH" [of r ctl nu]) auto
      with eq True show ?thesis by auto
    qed
  qed
qed

text \<open>The loop only appends to the log it starts with.\<close>

lemma solve_loop_append_all:
  fixes log :: "step_record list"
  shows "\<forall>l. solve_loop lib cfg w email secret max_steps step_no cur l =
     l @ solve_loop lib cfg w email secret max_steps step_no cur []"
proof (induction lib cfg w email secret max_steps step_no cur log rule: solve_loop.induct)
  case (1 lib cfg w email secret max_steps step_no cur log)
  show ?case
  proof (cases "truthy cur \<and> int step_no < max_steps")
    case False
    then show ?thesis by (simp add: solve_loop_stop)
  next
    case True
    obtain r ctl where rs: "run_step lib cfg w email secret (Suc step_no) cur = (r, ctl)"
      by (cases "run_step lib cfg w email secret (Suc step_no) cur")
    show ?thesis
    proof (cases ctl)
      case None
      with True rs show ?thesis by (simp add: solve_loop_break)
    next
      case (Some nu)
      have ih: "\<forall>l. solve_loop lib cfg w email secret max_steps (Suc step_no) nu l =
            l @ solve_loop lib cfg w email secret max_steps (Suc step_no) nu []"
        using True rs Some by (intro "1.IH" [of r ctl nu]) auto
      show ?thesis
      proof
        fix l
        from ih have "solve_loop lib cfg w email secret max_steps (Suc step_no) nu (l @ [r]) =
            (l @ [r]) @ solve_loop lib cfg w email secret max_steps (Suc step_no) nu []"
          by blast
        moreover from ih
        have "solve_loop lib cfg w email secret max_steps (Suc step_no) nu ([] @ [r]) =
            ([] @ [r]) @ solve_loop lib cfg w email secret max_steps (Suc step_no) nu []"
          by blast
        ultimately show "solve_loop lib cfg w email secret max_steps step_no cur l =
            l @ solve_loop lib cfg w email secret max_steps step_no cur []"
          using True rs Some
          by (simp add: solve_loop_continue [where log = l] solve_loop_continue [where log = "[]"])
      qed
    qed
  qed
qed

lemma solve_loop_append:
  "solve_loop lib cfg w email secret max_steps step_no cur log =
     log @ solve_loop lib cfg w email secret max_steps step_no cur []"
  using solve_loop_append_all by blast

text \<open>The first iteration, split off.\<close>

lemma solve_loop_first:
  "truthy cur \<Longrightarrow> int step_no < max_steps \<Longrightarrow>
     solve_loop lib cfg w email secret max_steps step_no cur [] =
       fst (run_step lib cfg w email secret (Suc step_no) cur)
       # (case snd (run_step lib cfg w email secret (Suc step_no) cur) of
            None \<Rightarrow> []
          | Some nu \<Rightarrow> solve_loop lib cfg w email secret max_steps (Suc step_no) nu [])"
proof -
  assume t: "truthy cur" "int step_no < max_steps"
  obtain r ctl where rs: "run_step lib cfg w email secret (Suc step_no) cur = (r, ctl)"
    by (cases "run_step lib cfg w email secret (Suc step_no) cur")
  show ?thesis
  proof (cases ctl)
    case None
    with t rs show ?thesis by (simp add: solve_loop_break)
  next
    case (Some nu)
    with t rs show ?thesis
      using solve_loop_append [of lib cfg w email secret max_steps "Suc step_no" nu "[r]"]
      by (simp add: solve_loop_continue)
  qed
qed

lemma url_after_shift:
  "url_after lib cfg w email secret n cur (Suc j) =
     (if truthy cur then
        (case snd (run_step lib cfg w email secret (Suc n) cur) of
           None \<Rightarrow> None
         | Some nu \<Rightarrow> url_after lib cfg w email secret (Suc n) nu j)
      else None)"
proof (induction j)
  case 0
  show ?case
    using run_step_continue [of lib cfg w email secret "Suc n" cur]
    by (auto split: option.splits)
next
  case (Suc j)
  show ?case
    by (subst url_after.simps(2), subst Suc.IH) (auto split: option.splits)
qed

text \<open>
  The log of a loop holds the records of its iterations: the record at position \<open>j\<close> is
  that of the iteration on the URL that the loop has after \<open>j\<close> iterations, and the log
  has a record at position \<open>j\<close> exactly when the loop gets so far below \<open>max_steps\<close>.
\<close>

lemma solve_loop_nth:
  "url_after lib cfg w email secret n cur j = Some u \<Longrightarrow> int (n + j) < max_steps \<Longrightarrow>
     j < length (solve_loop lib cfg w email secret max_steps n cur [])
     \<and> solve_loop lib cfg w email secret max_steps n cur [] ! j
         = fst (run_step lib cfg w email secret (Suc (n + j)) u)"
proof (induction j arbitrary: n cur)
  case 0
  then have "truthy cur" "u = cur" "int n < max_steps"
    by (auto split: if_splits)
  then show ?case
    by (simp add: solve_loop_first)
next
  case (Suc j)
  from Suc.prems(1) have t: "truthy cur"
    by (auto simp: url_after_shift simp del: url_after.simps split: if_splits)
  with Suc.prems(1) obtain nu where
    nu: "snd (run_step lib cfg w email secret (Suc n) cur) = Some nu"
    and nxt: "url_after lib cfg w email secret (Suc n) nu j = Some u"
    by (auto simp: url_after_shift simp del: url_after.simps split: if_splits option.splits)
  from Suc.prems(2) have n: "int n < max_steps" "int (Suc n + j) < max_steps"
    by simp_all
  from Suc.IH [OF nxt n(2)] t n(1) nu show ?case
    by (simp add: solve_loop_first)
qed

lemma solve_loop_length:
  "j < length (solve_loop lib cfg w email secret max_steps n cur []) \<Longrightarrow>
     (\<exists>u. url_after lib cfg w email secret n cur j = Some u) \<and> int (n + j) < max_steps"
proof (induction j arbitrary: n cur)
  case 0
  then have "truthy cur \<and> int n < max_steps"
    by (cases "truthy cur \<and> int n < max_steps") (simp_all add: solve_loop_stop)
  then show ?case by simp
next
  case (Suc j)
  then have t: "truthy cur" "int n < max_steps"
    by (cases "truthy cur \<and> int n < max_steps"; simp add: solve_loop_stop)+
  with Suc.prems obtain nu where
    nu: "snd (run_step lib cfg w email secret (Suc n) cur) = Some nu"
    and len: "j < length (solve_loop lib cfg w email secret max_steps (Suc n) nu [])"
    by (auto simp: solve_loop_first split: option.splits)
  from Suc.IH [OF len] t nu show ?case
    by (auto simp: url_after_shift simp del: url_after.simps)
qed

lemma success_iff:
  "list_all (\<lambda>s. (case submit_status s of None \<Rightarrow> 500 | Some c \<Rightarrow> c) < (400::int)) rs
     \<longleftrightarrow> (\<forall>s \<in> set rs. \<exists>c. submit_status s = Some c \<and> c < 400)"
  by (auto simp: list_all_iff split: option.splits)

lemma lit_results [simp]:
  "lit ''chain_completed'' \<noteq> lit ''chain_with_errors''"
  "lit ''chain_with_errors'' \<noteq> lit ''chain_completed''"
  by (simp_all add: lit_def)

section \<open>The result of a run\<close>

text \<open>
  Claim C9. When \<^verbatim>\<open>solve_quiz\<close> is called with \<open>max_steps \<le> 0\<close> or with an empty start
  URL, it runs no iteration: the outcome is \<^verbatim>\<open>chain_completed\<close>, \<open>steps_done\<close> is 0, the
  list of steps is empty, and \<open>meets_required_steps\<close> is \<open>0 \<ge> required_min_steps\<close>.
\<close>

theorem solve_quiz_no_iterations:
  "max_steps \<le> 0 \<or> start_url = [] \<Longrightarrow>
     solve_quiz lib cfg w email secret start_url required_min_steps max_steps =
       \<lparr>result = lit ''chain_completed'', steps_done = 0,
        meets_required_steps = (0 \<ge> required_min_steps), steps = []\<rparr>"
  by (auto simp: solve_quiz_def solve_loop_stop)

theorem solve_quiz_no_iterations_witness:
  "solve_quiz sample_lib sample_config chain_world (lit ''e'') (lit ''s'') (lit ''https://x/start'') 3 0 =
     \<lparr>result = lit ''chain_completed'', steps_done = 0, meets_required_steps = False, steps = []\<rparr>
   \<and> solve_quiz sample_lib sample_config chain_world (lit ''e'') (lit ''s'') [] 0 5 =
     \<lparr>result = lit ''chain_completed'', steps_done = 0, meets_required_steps = True, steps = []\<rparr>"
  using solve_quiz_no_iterations [of 0 "lit ''https://x/start''" sample_lib sample_config
      chain_world "lit ''e''" "lit ''s''" 3]
    solve_quiz_no_iterations [of 5 "[]" sample_lib sample_config chain_world "lit ''e''" "lit ''s''" 0]
  by simp

text \<open>
  The log of a run is the log of its iterations: every iteration that the chain reaches
  below \<open>max_steps\<close> has its record in the log, at its place, and the log has no other
  record.
\<close>

lemma solve_quiz_steps:
  "steps (solve_quiz lib cfg w email secret start_url required_min_steps max_steps) =
     solve_loop lib cfg w email secret max_steps 0 (PStr start_url) []"
  by (simp add: solve_quiz_def Let_def)

lemma solve_quiz_nth:
  assumes "chain_url lib cfg w email secret start_url k = Some cur" and "int k < max_steps"
  shows "k < length (steps (solve_quiz lib cfg w email secret start_url required_min_steps max_steps))
     \<and> steps (solve_quiz lib cfg w email secret start_url required_min_steps max_steps) ! k
         = fst (run_step lib cfg w email secret (Suc k) cur)"
  using solve_loop_nth [of lib cfg w email secret 0 "PStr start_url" k cur max_steps] assms
  by (simp add: solve_quiz_steps chain_url_def)

lemma solve_quiz_length:
  assumes "k < length (steps (solve_quiz lib cfg w email secret start_url required_min_steps max_steps))"
  shows "\<exists>cur. chain_url lib cfg w email secret start_url k = Some cur \<and> int k < max_steps
     \<and> steps (solve_quiz lib cfg w email secret start_url required_min_steps max_steps) ! k
         = fst (run_step lib cfg w email secret (Suc k) cur)"
proof -
  from assms solve_loop_length [of k lib cfg w email secret max_steps 0 "PStr start_url"]
  obtain cur where c: "chain_url lib cfg w email secret start_url k = Some cur" "int k < max_steps"
    by (auto simp: solve_quiz_steps chain_url_def)
  with solve_quiz_nth [OF c] show ?thesis by blast
qed

lemma chain_url_Suc:
  "chain_url lib cfg w email secret start_url k = Some cur \<Longrightarrow>
     chain_url lib cfg w email secret start_url (Suc k)
       = snd (run_step lib cfg w email secret (Suc k) cur)"
  by (simp add: chain_url_def)

text \<open>
  Claim C10 (as amended). Every result of \<^verbatim>\<open>solve_quiz\<close> has a well-formed step log:
  the records are in append order with the step numbers 1, 2, ... up to \<open>steps_done\<close>,
  \<open>steps_done\<close> is the length of the log and is at most \<open>max_steps\<close> when \<open>max_steps\<close> is
  not negative (and 0 otherwise), and a record with the \<^verbatim>\<open>error\<close> key can only be the
  last one, so there is at most one. There is one record per iteration: the record at
  position \<open>k\<close> is the record of iteration \<open>k + 1\<close>, every iteration that the chain
  reaches below \<open>max_steps\<close> appends its record, and an iteration that ends with an error
  appends its record too and is the last one.
\<close>

theorem solve_quiz_step_log:
  assumes "r = solve_quiz lib cfg w email secret start_url required_min_steps max_steps"
  shows "map step (steps r) = [1 ..< Suc (length (steps r))]
     \<and> steps_done r = int (length (steps r))
     \<and> steps_done r \<le> max 0 max_steps
     \<and> (\<forall>i < length (steps r). error (steps r ! i) \<noteq> None \<longrightarrow> Suc i = length (steps r))
     \<and> (\<forall>k < length (steps r). \<exists>cur.
           chain_url lib cfg w email secret start_url k = Some cur \<and> int k < max_steps
           \<and> steps r ! k = fst (run_step lib cfg w email secret (Suc k) cur))
     \<and> (\<forall>k cur. chain_url lib cfg w email secret start_url k = Some cur \<and> int k < max_steps
           \<longrightarrow> k < length (steps r)
               \<and> steps r ! k = fst (run_step lib cfg w email secret (Suc k) cur))
     \<and> (\<forall>k cur. chain_url lib cfg w email secret start_url k = Some cur \<and> int k < max_steps
             \<and> error (fst (run_step lib cfg w email secret (Suc k) cur)) \<noteq> None
           \<longrightarrow> length (steps r) = Suc k
               \<and> error (steps r ! k) = error (fst (run_step lib cfg w email secret (Suc k) cur)))"
proof -
  define l where "l = solve_loop lib cfg w email secret max_steps 0 (PStr start_url) []"
  have "step_log_ok l \<and> int (length l) \<le> max (int 0) max_steps"
    unfolding l_def by (rule solve_loop_inv) simp_all
  moreover have sl: "steps r = l" "steps_done r = int (length l)"
    by (simp_all add: assms solve_quiz_def l_def Let_def)
  ultimately have shape: "map step (steps r) = [1 ..< Suc (length (steps r))]
     \<and> steps_done r = int (length (steps r))
     \<and> steps_done r \<le> max 0 max_steps
     \<and> (\<forall>i < length (steps r). error (steps r ! i) \<noteq> None \<longrightarrow> Suc i = length (steps r))"
    by (simp add: step_log_ok_def)
  have from_log: "\<forall>k < length (steps r). \<exists>cur.
           chain_url lib cfg w email secret start_url k = Some cur \<and> int k < max_steps
           \<and> steps r ! k = fst (run_step lib cfg w email secret (Suc k) cur)"
    unfolding assms using solve_quiz_length by blast
  have to_log: "\<forall>k cur. chain_url lib cfg w email secret start_url k = Some cur \<and> int k < max_steps
           \<longrightarrow> k < length (steps r)
               \<and> steps r ! k = fst (run_step lib cfg w email secret (Suc k) cur)"
    unfolding assms using solve_quiz_nth by blast
  have failing: "\<forall>k cur. chain_url lib cfg w email secret start_url k = Some cur \<and> int k < max_steps
             \<and> error (fst (run_step lib cfg w email secret (Suc k) cur)) \<noteq> None
           \<longrightarrow> length (steps r) = Suc k
               \<and> error (steps r ! k) = error (fst (run_step lib cfg w email secret (Suc k) cur))"
  proof (intro allI impI, elim conjE)
    fix k cur
    assume c: "chain_url lib cfg w email secret start_url k = Some cur" "int k < max_steps"
      and e: "error (fst (run_step lib cfg w email secret (Suc k) cur)) \<noteq> None"
    from to_log c have k: "k < length (steps r)"
      "steps r ! k = fst (run_step lib cfg w email secret (Suc k) cur)"
      by blast+
    from chain_url_Suc [OF c(1)] run_step_error [OF e]
    have "chain_url lib cfg w email secret start_url (Suc k) = None"
      by simp
    with from_log have "\<not> Suc k < length (steps r)"
      by fastforce
    with k show "length (steps r) = Suc k
        \<and> error (steps r ! k) = error (fst (run_step lib cfg w email secret (Suc k) cur))"
      by simp
  qed
  from shape from_log to_log failing show ?thesis
    by (intro conjI) blast+
qed

section \<open>The iterations of the examples\<close>

lemmas sample_defs =
  run_step_def fetch_text_def chain_world_def bad_world_def nested_world_def ending_world_def
  refusing_world_def raise_for_status_def sample_lib_def sample_config_def Let_def try_file_def
  try_secret_def try_llm_def find_file_link_def new_record_def submit_to_analysis_def
  after_submit_def on_exception_def extract_next_url_def sample_json_def dict_get_def
  startswith_def nl_def sample_page_def lit_def extract_secret_from_text_def search1_def
  match1_here_def ci_word_def ci_match_def ci_fixes_def tolower_def latin_lower_def strip_def
  is_space_def latin_space_def normalize_answer_for_submission_def attempt_boolean_def
  attempt_number_def is_int_literal_def is_decimal_literal_def unsigned_part_def lower_def
  attempt_json_parse_def is_digit_def digit_value_def truthy_def

lemma chain_world_start:
  \<open>run_step sample_lib sample_config chain_world (lit ''e'') (lit ''s'') n (PStr (lit ''https://x/start''))
     = (token_record n (lit ''https://x/start'') 200
          (PDict [(lit ''url'', PStr (lit ''https://x/next''))]) (PStr (lit ''https://x/next'')),
        Some (PStr (lit ''https://x/next'')))\<close>
  by (simp add: sample_defs token_record_def)

lemma chain_world_next:
  \<open>run_step sample_lib sample_config chain_world (lit ''e'') (lit ''s'') n (PStr (lit ''https://x/next''))
     = (token_record n (lit ''https://x/next'') 200
          (PDict [(lit ''url'', PStr (lit ''https://x/next''))]) (PStr (lit ''https://x/next'')),
        Some (PStr (lit ''https://x/next'')))\<close>
  by (simp add: sample_defs token_record_def)

lemma chain_world_bad:
  \<open>run_step sample_lib sample_config chain_world (lit ''e'') (lit ''s'') n (PStr (lit ''https://x/bad''))
     = ((new_record n (PStr (lit ''https://x/bad'')))\<lparr>error := Some TransportError\<rparr>, None)\<close>
  by (simp add: sample_defs)

lemma bad_world_start:
  \<open>run_step sample_lib sample_config bad_world (lit ''e'') (lit ''s'') n (PStr (lit ''https://x/start''))
     = (token_record n (lit ''https://x/start'') 200
          (PDict [(lit ''url'', PStr (lit ''https://x/bad''))]) (PStr (lit ''https://x/bad'')),
        Some (PStr (lit ''https://x/bad'')))\<close>
  by (simp add: sample_defs token_record_def)

lemma bad_world_bad:
  \<open>run_step sample_lib sample_config bad_world (lit ''e'') (lit ''s'') n (PStr (lit ''https://x/bad''))
     = ((new_record n (PStr (lit ''https://x/bad'')))\<lparr>error := Some TransportError\<rparr>, None)\<close>
  by (simp add: sample_defs)

lemma nested_world_start:
  \<open>run_step sample_lib sample_config nested_world (lit ''e'') (lit ''s'') n (PStr (lit ''https://x/start''))
     = (token_record n (lit ''https://x/start'') 200
          (PDict [(lit ''url'', PStr (lit ''{"url": "https://x/next"}''))])
          (PStr (lit ''https://x/next'')),
        Some (PStr (lit ''https://x/next'')))\<close>
  by (simp add: sample_defs token_record_def)

lemma lit_nonempty [simp]: "lit (c # s) \<noteq> []"
  by (simp add: lit_def)

text \<open>
  In \<open>bad_world\<close> the second page cannot be fetched: the run has two records, the second
  with the error, and stops there although \<open>max_steps\<close> is 5.
\<close>

theorem solve_quiz_step_log_witness:
  "map step (steps (solve_quiz sample_lib sample_config bad_world (lit ''e'') (lit ''s'')
       (lit ''https://x/start'') 3 5)) = [1, 2]
   \<and> steps_done (solve_quiz sample_lib sample_config bad_world (lit ''e'') (lit ''s'')
       (lit ''https://x/start'') 3 5) = 2
   \<and> chain_url sample_lib sample_config bad_world (lit ''e'') (lit ''s'') (lit ''https://x/start'') 1
       = Some (PStr (lit ''https://x/bad''))
   \<and> error (steps (solve_quiz sample_lib sample_config bad_world (lit ''e'') (lit ''s'')
       (lit ''https://x/start'') 3 5) ! 1) = Some TransportError"
proof -
  let ?r = "solve_quiz sample_lib sample_config bad_world (lit ''e'') (lit ''s'')
       (lit ''https://x/start'') 3 5"
  have cu: "chain_url sample_lib sample_config bad_world (lit ''e'') (lit ''s'')
       (lit ''https://x/start'') 1 = Some (PStr (lit ''https://x/bad''))"
    by (simp add: chain_url_def bad_world_start)
  have er: "error (fst (run_step sample_lib sample_config bad_world (lit ''e'') (lit ''s'') (Suc 1)
        (PStr (lit ''https://x/bad'')))) = Some TransportError"
    by (simp add: bad_world_bad)
  note log = solve_quiz_step_log [OF refl, of sample_lib sample_config bad_world "lit ''e''"
      "lit ''s''" "lit ''https://x/start''" 3 5]
  note failing = log [THEN conjunct2, THEN conjunct2, THEN conjunct2, THEN conjunct2,
      THEN conjunct2, THEN conjunct2, rule_format, of 1 "PStr (lit ''https://x/bad'')"]
  from failing cu er have len: "length (steps ?r) = Suc 1"
    and e2: "error (steps ?r ! 1) = Some TransportError"
    by simp_all
  from log [THEN conjunct1] len have "map step (steps ?r) = [1 ..< Suc (Suc 1)]"
    by simp
  moreover from log [THEN conjunct2, THEN conjunct1] len have "steps_done ?r = 2"
    by simp
  moreover have "[1 ..< Suc (Suc 1)] = [1, 2::nat]"
    by (simp add: upt_rec)
  ultimately show ?thesis
    using cu e2 by simp
qed

text \<open>With \<open>max_steps = -1\<close> the run has no step, so \<open>steps_done = 0\<close> exceeds \<open>max_steps\<close>.\<close>

text \<open>With \<open>max_steps = -1\<close> the run has no step, so \<open>steps_done = 0\<close> exceeds \<open>max_steps\<close>.\<close>

theorem solve_quiz_step_log_counterexample:
  "steps_done (solve_quiz sample_lib sample_config chain_world (lit ''e'') (lit ''s'')
      (lit ''https://x/start'') 3 (- 1)) = 0
   \<and> \<not> steps_done (solve_quiz sample_lib sample_config chain_world (lit ''e'') (lit ''s'')
      (lit ''https://x/start'') 3 (- 1)) \<le> - 1"
  by (simp add: solve_quiz_def solve_loop_stop)

text \<open>
  Claim C1 (as amended). The outcome of a run is \<^verbatim>\<open>chain_completed\<close> exactly when every
  step record has a submission status and that status is below 400, and
  \<^verbatim>\<open>chain_with_errors\<close> otherwise: a record without a status, which is the record of an
  iteration that raised before its submission returned, counts as status 500. In
  particular, a run that performs \<open>max_steps\<close> iterations, each with a submission status
  below 400, ends with exactly \<open>max_steps\<close> records and the outcome \<^verbatim>\<open>chain_completed\<close>:
  the run performs iteration \<open>k + 1\<close> when \<open>chain_url\<close> has a URL for it, and its
  submission status is that of the record that \<open>run_step\<close> makes on this URL.
\<close>

theorem solve_quiz_outcome:
  assumes "r = solve_quiz lib cfg w email secret start_url required_min_steps max_steps"
  shows "(result r = lit ''chain_completed'' \<longleftrightarrow>
            (\<forall>s \<in> set (steps r). \<exists>c. submit_status s = Some c \<and> c < 400))
     \<and> (result r = lit ''chain_with_errors'' \<longleftrightarrow>
            \<not> (\<forall>s \<in> set (steps r). \<exists>c. submit_status s = Some c \<and> c < 400))
     \<and> (0 \<le> max_steps
          \<and> (\<forall>k < nat max_steps. \<exists>cur c.
                chain_url lib cfg w email secret start_url k = Some cur
                \<and> submit_status (fst (run_step lib cfg w email secret (Suc k) cur)) = Some c
                \<and> c < 400)
          \<longrightarrow> steps_done r = max_steps \<and> result r = lit ''chain_completed'')"
proof -
  define l where "l = solve_loop lib cfg w email secret max_steps 0 (PStr start_url) []"
  have steps: "steps r = l" and total: "steps_done r = int (length l)"
    and res: "result r = (if (\<forall>s \<in> set l. \<exists>c. submit_status s = Some c \<and> c < 400)
                          then lit ''chain_completed'' else lit ''chain_with_errors'')"
    by (simp_all add: assms solve_quiz_def l_def Let_def success_iff)
  have completed: "result r = lit ''chain_completed'' \<longleftrightarrow>
      (\<forall>s \<in> set (steps r). \<exists>c. submit_status s = Some c \<and> c < 400)"
    unfolding steps res by simp
  have with_errors: "result r = lit ''chain_with_errors'' \<longleftrightarrow>
      \<not> (\<forall>s \<in> set (steps r). \<exists>c. submit_status s = Some c \<and> c < 400)"
    unfolding steps res using lit_results by auto
  have full: "0 \<le> max_steps
          \<and> (\<forall>k < nat max_steps. \<exists>cur c.
                chain_url lib cfg w email secret start_url k = Some cur
                \<and> submit_status (fst (run_step lib cfg w email secret (Suc k) cur)) = Some c
                \<and> c < 400)
          \<longrightarrow> steps_done r = max_steps \<and> result r = lit ''chain_completed''"
  proof (intro impI, elim conjE)
    assume max: "0 \<le> max_steps"
      and hyp: "\<forall>k < nat max_steps. \<exists>cur c.
                chain_url lib cfg w email secret start_url k = Some cur
                \<and> submit_status (fst (run_step lib cfg w email secret (Suc k) cur)) = Some c
                \<and> c < 400"
    have at: "k < length l \<and> (\<exists>c. submit_status (l ! k) = Some c \<and> c < 400)"
      if "k < nat max_steps" for k
    proof -
      from hyp that obtain cur c where
        c: "chain_url lib cfg w email secret start_url k = Some cur"
        and s: "submit_status (fst (run_step lib cfg w email secret (Suc k) cur)) = Some c" "c < 400"
        by blast
      from that have "int k < max_steps" by simp
      from solve_quiz_nth [OF c this, of required_min_steps] s show ?thesis
        by (simp add: solve_quiz_steps l_def)
    qed
    have upper: "int (length l) \<le> max (int 0) max_steps"
      unfolding l_def using solve_loop_inv [of "[]" 0 lib cfg w email secret max_steps "PStr start_url"]
      by simp
    have "\<not> length l < nat max_steps"
      using at [of "length l"] by auto
    with upper max have len: "int (length l) = max_steps"
      by simp
    then have "\<forall>k < length l. \<exists>c. submit_status (l ! k) = Some c \<and> c < 400"
      using at by auto
    then have "\<forall>s \<in> set l. \<exists>c. submit_status s = Some c \<and> c < 400"
      by (auto simp: in_set_conv_nth)
    with len show "steps_done r = max_steps \<and> result r = lit ''chain_completed''"
      by (simp add: total res)
  qed
  from completed with_errors full show ?thesis
    by (intro conjI)
qed

text \<open>
  In \<open>chain_world\<close> the page \<^verbatim>\<open>https://x/bad\<close> cannot be fetched, but a run from
  \<^verbatim>\<open>https://x/start\<close> never gets there: with \<open>max_steps = 2\<close> it performs two
  iterations, both with status 200.
\<close>

theorem solve_quiz_outcome_witness:
  "steps_done (solve_quiz sample_lib sample_config chain_world (lit ''e'') (lit ''s'')
      (lit ''https://x/start'') 3 2) = 2
   \<and> result (solve_quiz sample_lib sample_config chain_world (lit ''e'') (lit ''s'')
      (lit ''https://x/start'') 3 2) = lit ''chain_completed''
   \<and> error (fst (run_step sample_lib sample_config chain_world (lit ''e'') (lit ''s'') 1
        (PStr (lit ''https://x/bad'')))) = Some TransportError"
proof -
  let ?r = "solve_quiz sample_lib sample_config chain_world (lit ''e'') (lit ''s'')
      (lit ''https://x/start'') 3 2"
  have u0: "chain_url sample_lib sample_config chain_world (lit ''e'') (lit ''s'')
      (lit ''https://x/start'') 0 = Some (PStr (lit ''https://x/start''))"
    by (simp add: chain_url_def)
  have s0: "submit_status (fst (run_step sample_lib sample_config chain_world (lit ''e'') (lit ''s'')
      (Suc 0) (PStr (lit ''https://x/start'')))) = Some 200"
    by (simp add: chain_world_start token_record_def)
  have u1: "chain_url sample_lib sample_config chain_world (lit ''e'') (lit ''s'')
      (lit ''https://x/start'') (Suc 0) = Some (PStr (lit ''https://x/next''))"
    by (simp add: chain_url_def chain_world_start)
  have s1: "submit_status (fst (run_step sample_lib sample_config chain_world (lit ''e'') (lit ''s'')
      (Suc (Suc 0)) (PStr (lit ''https://x/next'')))) = Some 200"
    by (simp add: chain_world_next token_record_def)
  have bad: "error (fst (run_step sample_lib sample_config chain_world (lit ''e'') (lit ''s'') 1
        (PStr (lit ''https://x/bad'')))) = Some TransportError"
    by (simp add: chain_world_bad)
  have "\<forall>k < nat 2. \<exists>cur c.
          chain_url sample_lib sample_config chain_world (lit ''e'') (lit ''s'')
            (lit ''https://x/start'') k = Some cur
          \<and> submit_status (fst (run_step sample_lib sample_config chain_world (lit ''e'') (lit ''s'')
              (Suc k) cur)) = Some c
          \<and> c < 400"
    using u0 s0 u1 s1 by (auto simp: less_Suc_eq numeral_2_eq_2)
  with solve_quiz_outcome [OF refl, of sample_lib sample_config chain_world "lit ''e''" "lit ''s''"
      "lit ''https://x/start''" 3 2]
  have "steps_done ?r = 2 \<and> result ?r = lit ''chain_completed''"
    by simp
  with bad show ?thesis by simp
qed

text \<open>
  When the first page cannot be fetched, the only record has no submission status at
  all, so no recorded status is 400 or above; the outcome is \<^verbatim>\<open>chain_with_errors\<close>.
\<close>

theorem solve_quiz_outcome_counterexample:
  "map submit_status (steps (solve_quiz sample_lib sample_config chain_world (lit ''e'') (lit ''s'')
      (lit ''https://x/bad'') 3 5)) = [None]
   \<and> result (solve_quiz sample_lib sample_config chain_world (lit ''e'') (lit ''s'')
      (lit ''https://x/bad'') 3 5) = lit ''chain_with_errors''"
  by (simp add: solve_quiz_def solve_loop_break [OF _ _ chain_world_bad] new_record_def)

section \<open>The next URL\<close>

text \<open>
  Claim C4. When the parsed grading response of an iteration of the run is a dictionary
  whose \<^verbatim>\<open>url\<close> value is a string that begins with an opening brace and parses as a
  JSON object with a \<^verbatim>\<open>url\<close> key, the next URL is the inner \<^verbatim>\<open>url\<close> value: the record
  of the iteration is in the log and keeps it under \<^verbatim>\<open>next_url\<close>, the loop goes on with
  it exactly when it is true, and the following iteration, when \<open>max_steps\<close> allows one,
  works on it.
\<close>

theorem nested_next_url:
  assumes "r = solve_quiz lib cfg w email secret start_url required_min_steps max_steps"
    and "chain_url lib cfg w email secret start_url k = Some cur" and "int k < max_steps"
    and "submit_parsed (fst (run_step lib cfg w email secret (Suc k) cur)) = Some (PDict d)"
    and "map_of d (lit ''url'') = Some (PStr s)" and "startswith s (lit ''{'')"
    and "json_loads lib s = Some (PDict nd)" and "map_of nd (lit ''url'') = Some v"
  shows "k < length (steps r) \<and> submit_parsed (steps r ! k) = Some (PDict d)
     \<and> next_url (steps r ! k) = Some v
     \<and> chain_url lib cfg w email secret start_url (Suc k) = (if truthy v then Some v else None)
     \<and> (truthy v \<and> int (Suc k) < max_steps
          \<longrightarrow> Suc k < length (steps r) \<and> url (steps r ! Suc k) = v)
     \<and> (\<not> (truthy v \<and> int (Suc k) < max_steps) \<longrightarrow> length (steps r) = Suc k)"
proof -
  have v: "extract_next_url lib (PDict d) = v"
    using assms(5-8) by (simp add: extract_next_url_def dict_get_def Let_def)
  from solve_quiz_nth [OF assms(2,3), of required_min_steps]
  have k: "k < length (steps r)"
    "steps r ! k = fst (run_step lib cfg w email secret (Suc k) cur)"
    by (simp_all add: assms(1))
  from run_step_parsed [OF assms(4)] v
  have nu: "next_url (fst (run_step lib cfg w email secret (Suc k) cur)) = Some v"
    and ctl: "snd (run_step lib cfg w email secret (Suc k) cur) = (if truthy v then Some v else None)"
    by simp_all
  from chain_url_Suc [OF assms(2)] ctl
  have nxt: "chain_url lib cfg w email secret start_url (Suc k) = (if truthy v then Some v else None)"
    by simp
  have follow: "Suc k < length (steps r) \<and> url (steps r ! Suc k) = v"
    if "truthy v" "int (Suc k) < max_steps"
  proof -
    from nxt that have "chain_url lib cfg w email secret start_url (Suc k) = Some v"
      by simp
    from solve_quiz_nth [OF this that(2), of required_min_steps] show ?thesis
      by (simp add: assms(1) run_step_url)
  qed
  have last: "length (steps r) = Suc k" if "\<not> (truthy v \<and> int (Suc k) < max_steps)"
  proof -
    have "\<not> Suc k < length (steps r)"
    proof
      assume "Suc k < length (steps r)"
      from solve_quiz_length [OF this [unfolded assms(1)]] nxt that show False
        by (auto split: if_splits)
    qed
    with k show ?thesis by simp
  qed
  from k assms(4) nu nxt follow last show ?thesis
    by simp
qed

text \<open>
  In \<open>nested_world\<close> the grader answers with the response of the specification's example,
  \<^verbatim>\<open>{"url": "{\"url\": \"https://x/next\"}"}\<close>: the second iteration works on
  \<^verbatim>\<open>https://x/next\<close>.
\<close>

theorem nested_next_url_witness:
  \<open>next_url (steps (solve_quiz sample_lib sample_config nested_world (lit ''e'') (lit ''s'')
       (lit ''https://x/start'') 3 2) ! 0) = Some (PStr (lit ''https://x/next''))
   \<and> Suc 0 < length (steps (solve_quiz sample_lib sample_config nested_world (lit ''e'') (lit ''s'')
       (lit ''https://x/start'') 3 2))
   \<and> url (steps (solve_quiz sample_lib sample_config nested_world (lit ''e'') (lit ''s'')
       (lit ''https://x/start'') 3 2) ! Suc 0) = PStr (lit ''https://x/next'')\<close>
proof -
  have u0: "chain_url sample_lib sample_config nested_world (lit ''e'') (lit ''s'')
      (lit ''https://x/start'') 0 = Some (PStr (lit ''https://x/start''))"
    by (simp add: chain_url_def)
  have p0: \<open>submit_parsed (fst (run_step sample_lib sample_config nested_world (lit ''e'') (lit ''s'')
      (Suc 0) (PStr (lit ''https://x/start''))))
      = Some (PDict [(lit ''url'', PStr (lit ''{"url": "https://x/next"}''))])\<close>
    by (simp add: nested_world_start token_record_def)
  have d: \<open>map_of [(lit ''url'', PStr (lit ''{"url": "https://x/next"}''))] (lit ''url'')
      = Some (PStr (lit ''{"url": "https://x/next"}''))\<close>
    by simp
  have b: \<open>startswith (lit ''{"url": "https://x/next"}'') (lit ''{'')\<close>
    by (simp add: startswith_def lit_def)
  have j: \<open>json_loads sample_lib (lit ''{"url": "https://x/next"}'')
      = Some (PDict [(lit ''url'', PStr (lit ''https://x/next''))])\<close>
    by (simp add: sample_lib_def sample_json_def lit_def)
  have n: "map_of [(lit ''url'', PStr (lit ''https://x/next''))] (lit ''url'')
      = Some (PStr (lit ''https://x/next''))"
    by simp
  have m: "int 0 < 2"
    by simp
  from nested_next_url [OF refl u0 m p0 d b j n, of 3]
  show ?thesis
    by simp
qed

section \<open>The language model call\<close>

text \<open>
  Claim C3 (as amended). \<^verbatim>\<open>_call_aipipe\<close> raises, and returns no value, when the token or
  the endpoint is not configured, when the request fails in the network, and when the
  service answers with a status outside 200 to 299. When the answer is a JSON object
  whose list of choices is empty or absent, the call does not raise: it returns the empty
  string.
\<close>

theorem call_aipipe_failures:
  "(unset (AIPIPE_TOKEN cfg) \<or> unset (AIPIPE_URL cfg)
      \<longrightarrow> call_aipipe lib cfg w n messages = Inl ConfigError)
   \<and> (AIPIPE_TOKEN cfg = Some tok \<and> tok \<noteq> [] \<and> AIPIPE_URL cfg = Some u \<and> u \<noteq> []
      \<longrightarrow>
        (\<forall>e. post_aipipe w n u tok messages = Inl e
           \<longrightarrow> call_aipipe lib cfg w n messages = Inl e)
      \<and> (\<forall>resp. post_aipipe w n u tok messages = Inr resp
             \<and> \<not> (200 \<le> status_code resp \<and> status_code resp < 300)
           \<longrightarrow> call_aipipe lib cfg w n messages = Inl (HTTPStatusError (status_code resp)))
      \<and> (\<forall>resp d. post_aipipe w n u tok messages = Inr resp
             \<and> 200 \<le> status_code resp \<and> status_code resp < 300
             \<and> json_loads lib (body resp) = Some (PDict d)
             \<and> (\<not> has_key d (lit ''choices'') \<or> dict_get d (lit ''choices'') = PList [])
           \<longrightarrow> call_aipipe lib cfg w n messages = Inr (PStr [])))"
  by (auto simp: call_aipipe_def unset_def raise_for_status_def truthy_def Let_def)

theorem call_aipipe_failures_witness:
  \<open>call_aipipe sample_lib (sample_config\<lparr>AIPIPE_TOKEN := None\<rparr>) chain_world 1 []
       = Inl ConfigError
   \<and> call_aipipe sample_lib sample_config chain_world 1 [] = Inl TransportError
   \<and> call_aipipe sample_lib sample_config
         (chain_world\<lparr>post_aipipe := (\<lambda>n u t m. Inr \<lparr>status_code = 503, body = []\<rparr>)\<rparr>) 1 []
       = Inl (HTTPStatusError 503)
   \<and> call_aipipe sample_lib sample_config empty_choices_world 1 [] = Inr (PStr [])\<close>
proof -
  have one: "call_aipipe sample_lib (sample_config\<lparr>AIPIPE_TOKEN := None\<rparr>) chain_world 1 []
       = Inl ConfigError"
    using call_aipipe_failures [of "sample_config\<lparr>AIPIPE_TOKEN := None\<rparr>" sample_lib
        chain_world 1 "[]"]
    by (simp add: unset_def)
  have two: "call_aipipe sample_lib sample_config chain_world 1 [] = Inl TransportError"
    using call_aipipe_failures [of sample_config sample_lib chain_world 1 "[]"
        "lit ''token''" "lit ''https://llm/api''"]
    by (simp add: sample_config_def chain_world_def)
  have three: "call_aipipe sample_lib sample_config
         (chain_world\<lparr>post_aipipe := (\<lambda>n u t m. Inr \<lparr>status_code = 503, body = []\<rparr>)\<rparr>) 1 []
       = Inl (HTTPStatusError 503)"
    using call_aipipe_failures [of sample_config sample_lib
        "chain_world\<lparr>post_aipipe := (\<lambda>n u t m. Inr \<lparr>status_code = 503, body = []\<rparr>)\<rparr>" 1 "[]"
        "lit ''token''" "lit ''https://llm/api''"]
    by (simp add: sample_config_def)
  have four: \<open>call_aipipe sample_lib sample_config empty_choices_world 1 [] = Inr (PStr [])\<close>
    using call_aipipe_failures [of sample_config sample_lib empty_choices_world 1 "[]"
        "lit ''token''" "lit ''https://llm/api''"]
    by (simp add: sample_config_def empty_choices_world_def sample_lib_def sample_json_def
        dict_get_def lit_def)
  from one two three four show ?thesis by simp
qed

text \<open>A 200 response with an empty list of choices: the call returns the empty string.\<close>

theorem call_aipipe_failures_counterexample:
  "call_aipipe sample_lib sample_config empty_choices_world 1
     [(lit ''system'', system_prompt),
      (lit ''user'', user_prompt (lit ''https://x/start'') (lit ''page''))]
     = Inr (PStr [])"
  by (simp add: call_aipipe_def sample_config_def empty_choices_world_def sample_lib_def
      sample_json_def dict_get_def has_key_def lit_def unset_def raise_for_status_def truthy_def)

section \<open>Properties of the normalizer\<close>

lemma dropWhile_head: "xs \<noteq> [] \<Longrightarrow> \<not> P (hd xs) \<Longrightarrow> dropWhile P xs = xs"
  by (cases xs) simp_all

lemma hd_dropWhile_rev_dropWhile:
  assumes "rev (dropWhile P (rev (dropWhile P s))) \<noteq> []"
  shows "\<not> P (hd (rev (dropWhile P (rev (dropWhile P s)))))"
proof -
  let ?a = "dropWhile P s" and ?b = "dropWhile P (rev (dropWhile P s))"
  from assms have b: "?b \<noteq> []" by simp
  have a: "?a \<noteq> []"
  proof
    assume "?a = []"
    then have "?b = []" by (metis dropWhile.simps(1) rev.simps(1))
    with b show False by (rule notE)
  qed
  obtain pre where "rev ?a = pre @ ?b"
    by (metis takeWhile_dropWhile_id)
  then have "?a = rev ?b @ rev pre"
    by (metis rev_append rev_rev_ident)
  with b have "hd (rev ?b) = hd ?a"
    by (metis hd_append2 rev_is_Nil_conv)
  moreover from a have "\<not> P (hd ?a)" by (rule hd_dropWhile)
  ultimately show ?thesis by simp
qed

lemma strip_strip [simp]: "strip lib (strip lib s) = strip lib s"
proof (cases "strip lib s = []")
  case True
  have "strip lib [] = []" by (simp add: strip_def)
  with True show ?thesis by simp
next
  case False
  let ?b = "dropWhile (is_space lib) (rev (dropWhile (is_space lib) s))"
  from False have ne: "rev ?b \<noteq> []" by (simp add: strip_def)
  then have "\<not> is_space lib (hd (rev ?b))" by (rule hd_dropWhile_rev_dropWhile)
  with ne have "dropWhile (is_space lib) (rev ?b) = rev ?b" by (rule dropWhile_head)
  then show ?thesis by (simp add: strip_def)
qed

lemma strip_no_space:
  "s \<noteq> [] \<Longrightarrow> \<not> is_space lib (hd s) \<Longrightarrow> \<not> is_space lib (last s) \<Longrightarrow> strip lib s = s"
  by (simp add: strip_def dropWhile_head hd_rev)

lemma clean_value_scalar [simp]: "is_scalar (clean_value lib v)"
  by (simp add: clean_value_def)

lemma clean_value_idem: "is_scalar v \<Longrightarrow> clean_value lib v = v"
  by (simp add: clean_value_def)

lemma update_fresh: "k \<notin> fst ` set al \<Longrightarrow> AList.update k v al = al @ [(k, v)]"
  by (induction al) auto

lemma update_values: "set (AList.update k v al) \<subseteq> insert (k, v) (set al)"
  by (induction al) auto

lemma clean_from_props:
  "distinct (map fst acc) \<Longrightarrow> (\<forall>kv \<in> set acc. is_scalar (snd kv)) \<Longrightarrow>
     distinct (map fst (clean_from lib obj acc))
     \<and> (\<forall>kv \<in> set (clean_from lib obj acc). is_scalar (snd kv))
     \<and> fst ` set (clean_from lib obj acc) = fst ` set acc \<union> fst ` set obj"
proof (induction obj arbitrary: acc)
  case Nil
  then show ?case by (simp add: clean_from_def)
next
  case (Cons kv obj)
  obtain k v where kv: "kv = (k, v)" by (cases kv)
  let ?acc = "AList.update k (clean_value lib v) acc"
  have step: "clean_from lib (kv # obj) acc = clean_from lib obj ?acc"
    by (simp add: clean_from_def kv)
  have d: "distinct (map fst ?acc)"
    using Cons.prems(1) by (rule distinct_update)
  have s: "\<forall>kv \<in> set ?acc. is_scalar (snd kv)"
    using Cons.prems(2) update_values [of k "clean_value lib v" acc] by auto
  have keys: "fst ` set ?acc = {k} \<union> fst ` set acc"
    by (rule dom_update)
  from Cons.IH [OF d s] keys show ?case
    unfolding step by (auto simp: kv)
qed

lemma clean_from_fixed:
  "distinct (map fst (acc @ d)) \<Longrightarrow> (\<forall>kv \<in> set d. is_scalar (snd kv)) \<Longrightarrow>
     clean_from lib d acc = acc @ d"
proof (induction d arbitrary: acc)
  case Nil
  then show ?case by (simp add: clean_from_def)
next
  case (Cons kv d)
  obtain k v where kv: "kv = (k, v)" by (cases kv)
  from Cons.prems(2) kv have v: "clean_value lib v = v"
    by (simp add: clean_value_idem)
  from Cons.prems(1) kv have "k \<notin> fst ` set acc" by auto
  then have u: "AList.update k v acc = acc @ [(k, v)]" by (rule update_fresh)
  have "clean_from lib (kv # d) acc = clean_from lib d (acc @ [(k, v)])"
    by (simp add: clean_from_def kv v u)
  also have "\<dots> = (acc @ [(k, v)]) @ d"
    using Cons.prems kv by (intro Cons.IH) auto
  finally show ?case by (simp add: kv)
qed

lemma clean_items_from: "clean_items lib obj = clean_from lib obj []"
  by (simp add: clean_items_def)

lemma has_key_iff: "has_key d k \<longleftrightarrow> k \<in> fst ` set d"
  by (simp add: has_key_def map_of_eq_None_iff)

text \<open>A dictionary that the flattening returned is flattened to itself.\<close>

lemma flatten_clean_items:
  assumes "\<not> has_key obj (lit ''answer'')"
  shows "flatten_answer_object lib (clean_items lib obj) = PDict (clean_items lib obj)"
proof -
  have p: "distinct (map fst (clean_items lib obj))"
    "\<forall>kv \<in> set (clean_items lib obj). is_scalar (snd kv)"
    "fst ` set (clean_items lib obj) = fst ` set obj"
    using clean_from_props [of "[]" lib obj] by (simp_all add: clean_items_from)
  from p(3) assms have "\<not> has_key (clean_items lib obj) (lit ''answer'')"
    by (simp add: has_key_iff)
  moreover from p(1,2) have "clean_items lib (clean_items lib obj) = clean_items lib obj"
    using clean_from_fixed [of "[]" "clean_items lib obj" lib] by (simp add: clean_items_from)
  ultimately show ?thesis
    by (simp add: flatten_answer_object_def)
qed

lemma flatten_PDict:
  "flatten_answer_object lib obj = PDict d \<Longrightarrow>
     \<not> has_key obj (lit ''answer'') \<and> d = clean_items lib obj"
  by (auto simp: flatten_answer_object_def Let_def split: if_splits option.splits)

lemma normalize_PDict:
  assumes "normalize_answer_for_submission lib x = PDict d"
  shows "\<exists>obj. \<not> has_key obj (lit ''answer'') \<and> d = clean_items lib obj"
proof (cases x)
  case (PDict obj)
  with assms have "flatten_answer_object lib obj = PDict d"
    by (simp add: normalize_answer_for_submission_def)
  then show ?thesis using flatten_PDict by blast
next
  case (PStr a)
  with assms obtain obj where "flatten_answer_object lib obj = PDict d"
    by (auto simp: normalize_answer_for_submission_def attempt_number_def Let_def
        split: option.splits if_splits pyval.splits sum.splits)
  then show ?thesis using flatten_PDict by blast
qed (use assms in \<open>simp_all add: normalize_answer_for_submission_def\<close>)

text \<open>
  Claim C2 (as amended). Normalizing a result of the normalizer that is a boolean, a
  number or a mapping returns it unchanged. A string result is returned unchanged when it
  came from the fallback for strings: the trimmed input, when that is no boolean word,
  no numeric literal and not parseable as JSON.
\<close>

theorem normalize_fixed_points:
  assumes "y = normalize_answer_for_submission lib x"
  shows "((\<exists>b. y = PBool b) \<or> (\<exists>i. y = PInt i) \<or> (\<exists>f. y = PFloat f) \<or> (\<exists>d. y = PDict d)
            \<longrightarrow> normalize_answer_for_submission lib y = y)
     \<and> (x = PStr a \<and> attempt_boolean lib (strip lib a) = None
          \<and> attempt_number lib (strip lib a) = None
          \<and> attempt_json_parse lib (strip lib a) = PNone
            \<longrightarrow> y = PStr (strip lib a) \<and> normalize_answer_for_submission lib y = y)"
proof (rule conjI; rule impI)
  assume "(\<exists>b. y = PBool b) \<or> (\<exists>i. y = PInt i) \<or> (\<exists>f. y = PFloat f) \<or> (\<exists>d. y = PDict d)"
  then consider (scalar) "(\<exists>b. y = PBool b) \<or> (\<exists>i. y = PInt i) \<or> (\<exists>f. y = PFloat f)"
    | (dict) d where "y = PDict d" by blast
  then show "normalize_answer_for_submission lib y = y"
  proof cases
    case scalar
    then show ?thesis by (auto simp: normalize_answer_for_submission_def)
  next
    case dict
    with assms obtain obj where "\<not> has_key obj (lit ''answer'')" "d = clean_items lib obj"
      using normalize_PDict [of lib x d] by auto
    then have "flatten_answer_object lib d = PDict d"
      by (simp add: flatten_clean_items)
    with dict show ?thesis by (simp add: normalize_answer_for_submission_def)
  qed
next
  assume h: "x = PStr a \<and> attempt_boolean lib (strip lib a) = None
          \<and> attempt_number lib (strip lib a) = None
          \<and> attempt_json_parse lib (strip lib a) = PNone"
  then have y: "y = PStr (strip lib a)"
    by (simp add: assms normalize_answer_for_submission_def)
  from h have "normalize_answer_for_submission lib (PStr (strip lib a)) = PStr (strip lib a)"
    by (simp add: normalize_answer_for_submission_def)
  with y show "y = PStr (strip lib a) \<and> normalize_answer_for_submission lib y = y"
    by simp
qed

lemmas normalize_defs =
  normalize_answer_for_submission_def flatten_answer_object_def clean_items_def clean_from_def
  clean_value_def has_key_def dict_get_def attempt_boolean_def attempt_number_def
  attempt_json_parse_def is_int_literal_def is_decimal_literal_def unsigned_part_def lower_def
  strip_def is_space_def latin_space_def is_digit_def digit_value_def latin_lower_def
  sample_lib_def sample_json_def sample_str_def sample_strs_def sample_dumps_def lit_def Let_def
  startswith_def

theorem normalize_fixed_points_witness:
  "normalize_answer_for_submission sample_lib
       (PDict [(lit ''a'', PNone), (lit ''ok'', PBool True)])
     = PDict [(lit ''a'', PStr (lit ''None'')), (lit ''ok'', PBool True)]
   \<and> normalize_answer_for_submission sample_lib
       (PDict [(lit ''a'', PStr (lit ''None'')), (lit ''ok'', PBool True)])
     = PDict [(lit ''a'', PStr (lit ''None'')), (lit ''ok'', PBool True)]
   \<and> normalize_answer_for_submission sample_lib (PStr (lit ''  the answer ''))
     = PStr (lit ''the answer'')
   \<and> normalize_answer_for_submission sample_lib (PStr (lit ''the answer''))
     = PStr (lit ''the answer'')"
proof -
  let ?x = "PDict [(lit ''a'', PNone), (lit ''ok'', PBool True)]"
  let ?y = "PDict [(lit ''a'', PStr (lit ''None'')), (lit ''ok'', PBool True)]"
  have y: "normalize_answer_for_submission sample_lib ?x = ?y"
    by (simp add: normalize_defs)
  have s: "strip sample_lib (lit ''  the answer '') = lit ''the answer''"
    "attempt_boolean sample_lib (lit ''the answer'') = None"
    "attempt_number sample_lib (lit ''the answer'') = None"
    "attempt_json_parse sample_lib (lit ''the answer'') = PNone"
    by (simp_all add: normalize_defs)
  from normalize_fixed_points [OF y [symmetric]]
  have "normalize_answer_for_submission sample_lib ?y = ?y" by simp
  moreover
  from normalize_fixed_points [OF refl, of sample_lib "PStr (lit ''  the answer '')"
      "lit ''  the answer ''"] s
  have "normalize_answer_for_submission sample_lib (PStr (lit ''  the answer ''))
          = PStr (lit ''the answer'')
      \<and> normalize_answer_for_submission sample_lib (PStr (lit ''the answer''))
          = PStr (lit ''the answer'')"
    by metis
  ultimately show ?thesis using y by simp
qed

text \<open>The string taken from the \<^verbatim>\<open>answer\<close> key is returned as it is, and normalizing it once
  more turns it into a boolean.\<close>

theorem normalize_fixed_points_counterexample:
  "normalize_answer_for_submission sample_lib (PDict [(lit ''answer'', PStr (lit ''yes''))])
     = PStr (lit ''yes'')
   \<and> normalize_answer_for_submission sample_lib (PStr (lit ''yes'')) = PBool True"
  by (simp add: normalize_defs)

end
